theory Spec2Isabelle
  imports Main "HOL-Library.Char_ord"
begin

section \<open>SQL values and the storage engine\<close>

text \<open>
  SQL NULL is \<open>None\<close>: a nullable column of type \<open>'a\<close> holds an \<open>'a option\<close>, a column
  declared NOT NULL (or a primary key) holds an \<open>'a\<close>.  Text is a character list.
  A \<open>TIMESTAMP WITH TIME ZONE\<close> is the number of microseconds since the epoch, a
  \<open>NUMERIC\<close> is kept as its canonical text (no function below computes with one).
\<close>

type_synonym timestamptz = int
type_synonym numeric = string

datatype json =
    JNull
  | JBool bool
  | JNum numeric
  | JStr string
  | JArr "json list"
  | JObj "(string \<times> json) list"

text \<open>
  The conditions a statement can raise.  Inside a PL/pgSQL block with
  \<open>EXCEPTION WHEN OTHERS\<close> each of them is caught and undoes the block's writes.
\<close>

datatype sql_error =
    invalid_text_representation
  | not_null_violation string
  | string_data_right_truncation nat
  | numeric_value_out_of_range
  | unique_violation string
  | foreign_key_violation string
  | check_violation string
  | invalid_parameter_value

text \<open>
  The built-in input functions of the storage engine are not part of the repository.
  They are parameters of the model: \<open>to_bigint pg s = None\<close> says that the cast
  \<open>s::BIGINT\<close> raises, and so on; \<open>jsonb_out\<close> is the text form of a jsonb value and
  \<open>sqlerrm\<close> the message text of a condition.
\<close>

record pg =
  to_bigint :: "string \<Rightarrow> int option"
  to_integer :: "string \<Rightarrow> int option"
  to_boolean :: "string \<Rightarrow> bool option"
  to_numeric :: "string \<Rightarrow> numeric option"
  numeric_15_2 :: "numeric \<Rightarrow> numeric option"
  to_timestamptz :: "string \<Rightarrow> timestamptz option"
  jsonb_out :: "json \<Rightarrow> string"
  sqlerrm :: "sql_error \<Rightarrow> string"

definition sql_bind :: "sql_error + 'a \<Rightarrow> ('a \<Rightarrow> sql_error + 'b) \<Rightarrow> sql_error + 'b" where
  "sql_bind m f = (case m of Inl e \<Rightarrow> Inl e | Inr v \<Rightarrow> f v)"

definition COALESCE :: "'a option \<Rightarrow> 'a option \<Rightarrow> 'a option" where
  "COALESCE a b = (case a of None \<Rightarrow> b | Some v \<Rightarrow> Some v)"

definition NULLIF :: "string option \<Rightarrow> string \<Rightarrow> string option" where
  "NULLIF a b = (if a = Some b then None else a)"

text \<open>\<open>x::T\<close> on a nullable text: NULL stays NULL, malformed text raises.\<close>

definition cast :: "(string \<Rightarrow> 'a option) \<Rightarrow> string option \<Rightarrow> sql_error + 'a option" where
  "cast f x =
     (case x of
        None \<Rightarrow> Inr None
      | Some s \<Rightarrow> (case f s of None \<Rightarrow> Inl invalid_text_representation | Some v \<Rightarrow> Inr (Some v)))"

text \<open>
  Storing a text into a \<open>VARCHAR(n)\<close> column: a longer value raises unless the excess
  consists of spaces, which are cut off.
\<close>

definition varchar :: "nat \<Rightarrow> string option \<Rightarrow> sql_error + string option" where
  "varchar n x =
     (case x of
        None \<Rightarrow> Inr None
      | Some s \<Rightarrow>
          if length s \<le> n then Inr (Some s)
          else if list_all (\<lambda>c. c = CHR '' '') (drop n s) then Inr (Some (take n s))
          else Inl (string_data_right_truncation n))"

definition not_null :: "string \<Rightarrow> 'a option \<Rightarrow> sql_error + 'a" where
  "not_null col x = (case x of None \<Rightarrow> Inl (not_null_violation col) | Some v \<Rightarrow> Inr v)"

subsection \<open>jsonb operators\<close>

text \<open>\<open>j -> k\<close>: the member \<open>k\<close> of an object, NULL for a missing key or a non-object.
  A jsonb object has no duplicate keys.\<close>

fun jsonb_get :: "json \<Rightarrow> string \<Rightarrow> json option" where
  "jsonb_get (JObj kvs) k = map_of kvs k"
| "jsonb_get _ k = None"

text \<open>The text of a jsonb value as \<open>->>\<close> and \<open>jsonb_array_elements_text\<close> give it:
  a JSON null is SQL NULL, a string is its content, anything else its jsonb text.\<close>

fun jsonb_text :: "pg \<Rightarrow> json \<Rightarrow> string option" where
  "jsonb_text pg JNull = None"
| "jsonb_text pg (JStr s) = Some s"
| "jsonb_text pg v = Some (jsonb_out pg v)"

definition jsonb_get_text :: "pg \<Rightarrow> json \<Rightarrow> string \<Rightarrow> string option" where
  "jsonb_get_text pg j k = (case jsonb_get j k of None \<Rightarrow> None | Some v \<Rightarrow> jsonb_text pg v)"

fun jsonb_typeof :: "json \<Rightarrow> string" where
  "jsonb_typeof JNull = ''null''"
| "jsonb_typeof (JBool b) = ''boolean''"
| "jsonb_typeof (JNum n) = ''number''"
| "jsonb_typeof (JStr s) = ''string''"
| "jsonb_typeof (JArr xs) = ''array''"
| "jsonb_typeof (JObj kvs) = ''object''"

text \<open>\<open>jsonb_array_elements\<close> is strict (a NULL argument gives no rows) and raises on
  a value that is not an array.\<close>

fun jsonb_array_elements :: "json option \<Rightarrow> sql_error + json list" where
  "jsonb_array_elements None = Inr []"
| "jsonb_array_elements (Some (JArr xs)) = Inr xs"
| "jsonb_array_elements (Some _) = Inl invalid_parameter_value"

fun jsonb_array_elements_text :: "pg \<Rightarrow> json option \<Rightarrow> string option list" where
  "jsonb_array_elements_text pg (Some (JArr xs)) = map (jsonb_text pg) xs"
| "jsonb_array_elements_text pg _ = []"

section \<open>Tables\<close>

text \<open>A table is the list of its rows, in insertion order.\<close>

subsection \<open>creators (supabase/tables/creators.sql)\<close>

record creators =
  id_col :: int
  slug :: "string option"
  name :: string
  is_registered :: "bool option"
  is_email_verified :: "bool option"
  chosen_currency :: "string option"
  is_superbacker :: "bool option"
  has_admin_message_badge :: "bool option"
  ppo_has_action :: "bool option"
  backing_action_count :: "int option"
  avatar :: "json option"
  urls :: "json option"
  websites :: "json option"
  data_hash :: "string option"
  created_at :: "timestamptz option"
  updated_at :: "timestamptz option"

subsection \<open>creator_outreach (supabase/tables/creator_outreach.sql)\<close>

record creator_outreach =
  creator_id :: int
  outreach_status :: string
  has_instagram :: "bool option"
  has_facebook :: "bool option"
  has_twitter :: "bool option"
  has_youtube :: "bool option"
  has_tiktok :: "bool option"
  has_linkedin :: "bool option"
  has_patreon :: "bool option"
  has_discord :: "bool option"
  has_twitch :: "bool option"
  has_bluesky :: "bool option"
  has_other_website :: "bool option"
  email :: "string option"
  email_source_url :: "string option"
  has_contact_form :: "bool option"
  contact_form_url :: "string option"
  last_contact_check_at :: "timestamptz option"
  contact_status :: "string option"
  contact_error :: "string option"
  contact_attempts :: "int option"
  site_hash :: "string option"
  instagram_url :: "string option"
  facebook_url :: "string option"
  twitter_url :: "string option"
  linkedin_url :: "string option"
  youtube_url :: "string option"
  tiktok_url :: "string option"
  other_urls :: "string option list option"
  first_contacted_at :: "timestamptz option"
  last_contacted_at :: "timestamptz option"
  response_received_at :: "timestamptz option"
  contact_method :: "string option"
  notes_col :: "string option"
  tags :: "string option list option"
  priority :: "int option"
  follow_up_date :: "int option"
  created_at :: "timestamptz option"
  updated_at :: "timestamptz option"

text \<open>The generated column:
  \<^verbatim>\<open>has_any_contact BOOLEAN GENERATED ALWAYS AS
     ((email IS NOT NULL) OR COALESCE(has_contact_form, false)) STORED\<close>.
  It cannot be written; every insert and update recomputes it from the row.\<close>

definition has_any_contact :: "creator_outreach \<Rightarrow> bool" where
  "has_any_contact r =
     (creator_outreach.email r \<noteq> None \<or>
      (case COALESCE (has_contact_form r) (Some False) of Some b \<Rightarrow> b | None \<Rightarrow> False))"

section \<open>The bulk functions (supabase/functions/bulk\_upsert.sql)\<close>

subsection \<open>The loop shared by the three functions\<close>

text \<open>
  Each function has the same frame:
  \<^verbatim>\<open>
  FOR rec IN SELECT * FROM jsonb_array_elements(data) LOOP
    BEGIN
      v_total := v_total + 1;
      ... the body: at most one write, then v_updated or v_inserted + 1 ...
    EXCEPTION WHEN OTHERS THEN
      v_errors := v_errors || jsonb_build_object(key, rec->>idkey, 'error', SQLERRM);
    END;
  END LOOP;
  RETURN QUERY SELECT v_inserted, v_updated, v_total, v_errors;
  \<close>
  The body of one iteration is a function from the table to either the condition it
  raises (the block's writes are undone, the variables keep their values) or its
  outcome and the new table.
\<close>

datatype outcome = Inserted | Updated | Unchanged

record 't loop_state =
  v_inserted :: int
  v_updated :: int
  v_total :: int
  v_errors :: "json list"
  table :: 't

text \<open>\<^verbatim>\<open>jsonb_build_object(key, rec->>idkey, 'error', SQLERRM)\<close>.  The list holds the
  members in the order the call names them; jsonb stores an object's members in an
  order of its own.\<close>

definition jsonb_build_error :: "pg \<Rightarrow> string \<Rightarrow> string \<Rightarrow> json \<Rightarrow> sql_error \<Rightarrow> json" where
  "jsonb_build_error pg key idkey rec err =
     JObj [(key, case jsonb_get_text pg rec idkey of None \<Rightarrow> JNull | Some s \<Rightarrow> JStr s),
           (''error'', JStr (sqlerrm pg err))]"

definition loop_body ::
  "('t \<Rightarrow> json \<Rightarrow> sql_error + outcome \<times> 't) \<Rightarrow> (json \<Rightarrow> sql_error \<Rightarrow> json) \<Rightarrow>
   't loop_state \<Rightarrow> json \<Rightarrow> 't loop_state" where
  "loop_body body on_error s rec =
     (let s1 = s\<lparr>v_total := v_total s + 1\<rparr> in
      case body (table s1) rec of
        Inl err \<Rightarrow> s1\<lparr>v_errors := v_errors s1 @ [on_error rec err]\<rparr>
      | Inr (Inserted, t) \<Rightarrow> s1\<lparr>v_inserted := v_inserted s1 + 1, table := t\<rparr>
      | Inr (Updated, t) \<Rightarrow> s1\<lparr>v_updated := v_updated s1 + 1, table := t\<rparr>
      | Inr (Unchanged, t) \<Rightarrow> s1\<lparr>table := t\<rparr>)"

fun bulk_loop ::
  "('t \<Rightarrow> json \<Rightarrow> sql_error + outcome \<times> 't) \<Rightarrow> (json \<Rightarrow> sql_error \<Rightarrow> json) \<Rightarrow>
   json list \<Rightarrow> 't loop_state \<Rightarrow> 't loop_state" where
  "bulk_loop body on_error [] s = s"
| "bulk_loop body on_error (rec # recs) s =
     bulk_loop body on_error recs (loop_body body on_error s rec)"

text \<open>The row the functions return, \<^verbatim>\<open>RETURNS TABLE(inserted_count INTEGER,
  updated_count INTEGER, total_count INTEGER, errors JSONB)\<close>.\<close>

record bulk_result =
  inserted_count :: int
  updated_count :: int
  total_count :: int
  errors :: json

definition bulk_function ::
  "('t \<Rightarrow> json \<Rightarrow> sql_error + outcome \<times> 't) \<Rightarrow> (json \<Rightarrow> sql_error \<Rightarrow> json) \<Rightarrow>
   json option \<Rightarrow> 't \<Rightarrow> sql_error + bulk_result \<times> 't" where
  "bulk_function body on_error data t =
     sql_bind (jsonb_array_elements data) (\<lambda>recs.
       let s = bulk_loop body on_error recs
                 \<lparr>v_inserted = 0, v_updated = 0, v_total = 0, v_errors = [], table = t\<rparr>
       in Inr (\<lparr>inserted_count = v_inserted s, updated_count = v_updated s,
                total_count = v_total s, errors = JArr (v_errors s)\<rparr>, table s))"

subsection \<open>sync\_creator\_outreach\_bulk\<close>

text \<open>The VALUES list of the INSERT, evaluated in order; the columns it does not name
  take their defaults.  The NOT NULL constraints are checked on the finished row.\<close>

definition outreach_values :: "pg \<Rightarrow> timestamptz \<Rightarrow> json \<Rightarrow> sql_error + creator_outreach" where
  "outreach_values pg now outreach =
    (let txt = jsonb_get_text pg outreach in
     sql_bind (cast (to_bigint pg) (txt ''creator_id'')) (\<lambda>x_creator_id.
     sql_bind (cast (to_boolean pg) (txt ''has_instagram'')) (\<lambda>x_has_instagram.
     sql_bind (cast (to_boolean pg) (txt ''has_facebook'')) (\<lambda>x_has_facebook.
     sql_bind (cast (to_boolean pg) (txt ''has_twitter'')) (\<lambda>x_has_twitter.
     sql_bind (cast (to_boolean pg) (txt ''has_youtube'')) (\<lambda>x_has_youtube.
     sql_bind (cast (to_boolean pg) (txt ''has_tiktok'')) (\<lambda>x_has_tiktok.
     sql_bind (cast (to_boolean pg) (txt ''has_linkedin'')) (\<lambda>x_has_linkedin.
     sql_bind (cast (to_boolean pg) (txt ''has_patreon'')) (\<lambda>x_has_patreon.
     sql_bind (cast (to_boolean pg) (txt ''has_discord'')) (\<lambda>x_has_discord.
     sql_bind (cast (to_boolean pg) (txt ''has_twitch'')) (\<lambda>x_has_twitch.
     sql_bind (cast (to_boolean pg) (txt ''has_bluesky'')) (\<lambda>x_has_bluesky.
     sql_bind (cast (to_boolean pg) (txt ''has_other_website'')) (\<lambda>x_has_other_website.
     sql_bind (varchar 50 (COALESCE (txt ''outreach_status'') (Some ''not_contacted''))) (\<lambda>x_outreach_status.
     sql_bind (cast (to_timestamptz pg) (NULLIF (txt ''first_contacted_at'') [])) (\<lambda>x_first_contacted_at.
     sql_bind (cast (to_timestamptz pg) (NULLIF (txt ''last_contacted_at'') [])) (\<lambda>x_last_contacted_at.
     sql_bind (cast (to_timestamptz pg) (NULLIF (txt ''response_received_at'') [])) (\<lambda>x_response_received_at.
     sql_bind (cast (to_boolean pg) (txt ''has_contact_form'')) (\<lambda>x_has_contact_form.
     sql_bind (cast (to_timestamptz pg) (NULLIF (txt ''last_contact_check_at'') [])) (\<lambda>x_last_contact_check_at.
     sql_bind (varchar 50 (COALESCE (txt ''contact_status'') (Some ''not_checked''))) (\<lambda>x_contact_status.
     sql_bind (cast (to_integer pg) (txt ''contact_attempts'')) (\<lambda>x_contact_attempts.
     sql_bind (not_null ''creator_id'' x_creator_id) (\<lambda>x_id.
     sql_bind (not_null ''outreach_status'' x_outreach_status) (\<lambda>x_status.
     Inr \<lparr>creator_id = x_id,
          outreach_status = x_status,
          has_instagram = COALESCE x_has_instagram (Some False),
          has_facebook = COALESCE x_has_facebook (Some False),
          has_twitter = COALESCE x_has_twitter (Some False),
          has_youtube = COALESCE x_has_youtube (Some False),
          has_tiktok = COALESCE x_has_tiktok (Some False),
          has_linkedin = COALESCE x_has_linkedin (Some False),
          has_patreon = COALESCE x_has_patreon (Some False),
          has_discord = COALESCE x_has_discord (Some False),
          has_twitch = COALESCE x_has_twitch (Some False),
          has_bluesky = COALESCE x_has_bluesky (Some False),
          has_other_website = COALESCE x_has_other_website (Some False),
          email = txt ''email'',
          email_source_url = txt ''email_source_url'',
          has_contact_form = COALESCE x_has_contact_form (Some False),
          contact_form_url = txt ''contact_form_url'',
          last_contact_check_at = x_last_contact_check_at,
          contact_status = x_contact_status,
          contact_error = txt ''contact_error'',
          contact_attempts = COALESCE x_contact_attempts (Some 0),
          site_hash = txt ''site_hash'',
          instagram_url = None,
          facebook_url = None,
          twitter_url = None,
          linkedin_url = None,
          youtube_url = None,
          tiktok_url = None,
          other_urls = None,
          first_contacted_at = x_first_contacted_at,
          last_contacted_at = x_last_contacted_at,
          response_received_at = x_response_received_at,
          contact_method = None,
          notes_col = txt ''notes'',
          tags = Some (if map_option jsonb_typeof (jsonb_get outreach ''tags'') = Some ''array''
                       then jsonb_array_elements_text pg (jsonb_get outreach ''tags'')
                       else []),
          priority = Some 0,
          follow_up_date = None,
          created_at = Some now,
          updated_at = Some now\<rparr>)))))))))))))))))))))))"

text \<open>The \<^verbatim>\<open>ON CONFLICT (creator_id) DO UPDATE SET\<close> list, applied to the stored row;
  the trigger \<open>set_creator_outreach_updated_at\<close> then sets \<open>updated_at\<close>.\<close>

definition outreach_do_update ::
  "timestamptz \<Rightarrow> creator_outreach \<Rightarrow> creator_outreach \<Rightarrow> creator_outreach" where
  "outreach_do_update now old EXCLUDED =
     old\<lparr>has_instagram := has_instagram EXCLUDED,
         has_facebook := has_facebook EXCLUDED,
         has_twitter := has_twitter EXCLUDED,
         has_youtube := has_youtube EXCLUDED,
         has_tiktok := has_tiktok EXCLUDED,
         has_linkedin := has_linkedin EXCLUDED,
         has_patreon := has_patreon EXCLUDED,
         has_discord := has_discord EXCLUDED,
         has_twitch := has_twitch EXCLUDED,
         has_bluesky := has_bluesky EXCLUDED,
         has_other_website := has_other_website EXCLUDED,
         creator_outreach.email :=
           COALESCE (creator_outreach.email EXCLUDED) (creator_outreach.email old),
         email_source_url := COALESCE (email_source_url EXCLUDED) (email_source_url old),
         has_contact_form := COALESCE (has_contact_form EXCLUDED) (has_contact_form old),
         contact_form_url := COALESCE (contact_form_url EXCLUDED) (contact_form_url old),
         last_contact_check_at :=
           COALESCE (last_contact_check_at EXCLUDED) (last_contact_check_at old),
         contact_status := COALESCE (contact_status EXCLUDED) (contact_status old),
         contact_error := COALESCE (contact_error EXCLUDED) (contact_error old),
         contact_attempts := COALESCE (contact_attempts EXCLUDED) (contact_attempts old),
         site_hash := COALESCE (site_hash EXCLUDED) (site_hash old),
         outreach_status :=
           (if outreach_status old = ''not_contacted''
            then outreach_status EXCLUDED
            else outreach_status old),
         creator_outreach.updated_at := Some now\<rparr>"

text \<open>\<^verbatim>\<open>INSERT INTO creator_outreach ... ON CONFLICT (creator_id) DO UPDATE\<close>:
  a stored row with the key is updated in place; otherwise the row is inserted, which
  the foreign key \<open>fk_creator_outreach\<close> allows only for an existing creator.\<close>

definition outreach_row :: "creator_outreach list \<Rightarrow> int \<Rightarrow> creator_outreach option" where
  "outreach_row t k = find (\<lambda>r. creator_id r = k) t"

definition outreach_insert_on_conflict ::
  "timestamptz \<Rightarrow> creators list \<Rightarrow> creator_outreach list \<Rightarrow> creator_outreach \<Rightarrow>
   sql_error + creator_outreach list" where
  "outreach_insert_on_conflict now cs t EXCLUDED =
     (case outreach_row t (creator_id EXCLUDED) of
        Some old \<Rightarrow>
          Inr (map (\<lambda>r. if creator_id r = creator_id EXCLUDED
                        then outreach_do_update now r EXCLUDED else r) t)
      | None \<Rightarrow>
          if list_ex (\<lambda>c. id_col c = creator_id EXCLUDED) cs
          then Inr (t @ [EXCLUDED])
          else Inl (foreign_key_violation ''fk_creator_outreach''))"

text \<open>The body of one iteration.\<close>

definition sync_creator_outreach ::
  "pg \<Rightarrow> timestamptz \<Rightarrow> creators list \<Rightarrow> creator_outreach list \<Rightarrow> json \<Rightarrow>
   sql_error + outcome \<times> creator_outreach list" where
  "sync_creator_outreach pg now cs t outreach =
     sql_bind (cast (to_bigint pg) (jsonb_get_text pg outreach ''creator_id'')) (\<lambda>k.
     let v_exists = (case k of None \<Rightarrow> False | Some i \<Rightarrow> outreach_row t i \<noteq> None) in
     sql_bind (outreach_values pg now outreach) (\<lambda>EXCLUDED.
     sql_bind (outreach_insert_on_conflict now cs t EXCLUDED) (\<lambda>t'.
     Inr (if v_exists then Updated else Inserted, t'))))"

definition sync_creator_outreach_bulk ::
  "pg \<Rightarrow> timestamptz \<Rightarrow> creators list \<Rightarrow> json option \<Rightarrow> creator_outreach list \<Rightarrow>
   sql_error + bulk_result \<times> creator_outreach list" where
  "sync_creator_outreach_bulk pg now cs outreach_data t =
     bulk_function (sync_creator_outreach pg now cs)
       (jsonb_build_error pg ''creator_id'' ''creator_id'') outreach_data t"

subsection \<open>Three-valued conditions\<close>

text \<open>A PL/pgSQL \<open>IF\<close> takes its branch only when the condition is true; NULL counts as
  not true.\<close>

definition sql_not :: "bool option \<Rightarrow> bool option" where
  "sql_not a = map_option Not a"

definition sql_or :: "bool option \<Rightarrow> bool option \<Rightarrow> bool option" where
  "sql_or a b =
     (if a = Some True \<or> b = Some True then Some True
      else if a = Some False \<and> b = Some False then Some False
      else None)"

definition sql_neq :: "'a option \<Rightarrow> 'a option \<Rightarrow> bool option" where
  "sql_neq a b = (case (a, b) of (Some x, Some y) \<Rightarrow> Some (x \<noteq> y) | _ \<Rightarrow> None)"

definition is_null :: "'a option \<Rightarrow> bool option" where
  "is_null a = Some (a = None)"

text \<open>The guard of both upsert functions,
  \<^verbatim>\<open>NOT v_exists OR v_existing_hash IS NULL OR v_existing_hash != v_data_hash\<close>.\<close>

definition data_changed :: "bool option \<Rightarrow> string option \<Rightarrow> string option \<Rightarrow> bool" where
  "data_changed v_exists v_existing_hash v_data_hash =
     (sql_or (sql_or (sql_not v_exists) (is_null v_existing_hash))
             (sql_neq v_existing_hash v_data_hash) = Some True)"

subsection \<open>upsert\_creators\_bulk\<close>

definition creators_values ::
  "pg \<Rightarrow> timestamptz \<Rightarrow> json \<Rightarrow> string option \<Rightarrow> sql_error + creators" where
  "creators_values pg now creator v_data_hash =
    (let txt = jsonb_get_text pg creator in
     sql_bind (cast (to_bigint pg) (txt ''id'')) (\<lambda>x_id.
     sql_bind (varchar 255 (txt ''slug'')) (\<lambda>x_slug.
     sql_bind (varchar 500 (txt ''name'')) (\<lambda>x_name.
     sql_bind (cast (to_boolean pg) (txt ''is_registered'')) (\<lambda>x_is_registered.
     sql_bind (cast (to_boolean pg) (txt ''is_email_verified'')) (\<lambda>x_is_email_verified.
     sql_bind (varchar 3 (txt ''chosen_currency'')) (\<lambda>x_chosen_currency.
     sql_bind (cast (to_boolean pg) (txt ''is_superbacker'')) (\<lambda>x_is_superbacker.
     sql_bind (cast (to_boolean pg) (txt ''has_admin_message_badge'')) (\<lambda>x_has_admin_message_badge.
     sql_bind (cast (to_boolean pg) (txt ''ppo_has_action'')) (\<lambda>x_ppo_has_action.
     sql_bind (cast (to_integer pg) (txt ''backing_action_count'')) (\<lambda>x_backing_action_count.
     sql_bind (not_null ''id'' x_id) (\<lambda>x_key.
     sql_bind (not_null ''name'' x_name) (\<lambda>x_name_nn.
     Inr \<lparr>id_col = x_key,
          slug = x_slug,
          name = x_name_nn,
          is_registered = x_is_registered,
          is_email_verified = x_is_email_verified,
          chosen_currency = x_chosen_currency,
          is_superbacker = x_is_superbacker,
          has_admin_message_badge = COALESCE x_has_admin_message_badge (Some False),
          ppo_has_action = COALESCE x_ppo_has_action (Some False),
          backing_action_count = COALESCE x_backing_action_count (Some 0),
          avatar = jsonb_get creator ''avatar'',
          urls = jsonb_get creator ''urls'',
          websites = COALESCE (jsonb_get creator ''websites'') (Some (JArr [])),
          data_hash = v_data_hash,
          created_at = Some now,
          updated_at = Some now\<rparr>)))))))))))))"

text \<open>\<^verbatim>\<open>ON CONFLICT (id) DO UPDATE SET\<close>: every listed column from EXCLUDED; the trigger
  \<open>set_creators_updated_at\<close> sets \<open>updated_at\<close>.\<close>

definition creators_do_update :: "timestamptz \<Rightarrow> creators \<Rightarrow> creators \<Rightarrow> creators" where
  "creators_do_update now old EXCLUDED =
     old\<lparr>creators.slug := creators.slug EXCLUDED,
         creators.name := creators.name EXCLUDED,
         is_registered := is_registered EXCLUDED,
         is_email_verified := is_email_verified EXCLUDED,
         chosen_currency := chosen_currency EXCLUDED,
         is_superbacker := is_superbacker EXCLUDED,
         has_admin_message_badge := has_admin_message_badge EXCLUDED,
         ppo_has_action := ppo_has_action EXCLUDED,
         backing_action_count := backing_action_count EXCLUDED,
         avatar := avatar EXCLUDED,
         creators.urls := creators.urls EXCLUDED,
         websites := websites EXCLUDED,
         creators.data_hash := creators.data_hash EXCLUDED,
         creators.updated_at := Some now\<rparr>"

definition creators_row :: "creators list \<Rightarrow> int \<Rightarrow> creators option" where
  "creators_row t k = find (\<lambda>r. id_col r = k) t"

text \<open>The write.  \<open>idx_creators_slug\<close> is a unique index over the rows whose slug is
  not NULL: neither the inserted nor the updated row may take the slug of another row.\<close>

definition creators_insert_on_conflict ::
  "timestamptz \<Rightarrow> creators list \<Rightarrow> creators \<Rightarrow> sql_error + creators list" where
  "creators_insert_on_conflict now t EXCLUDED =
     (if creators.slug EXCLUDED \<noteq> None \<and>
         list_ex (\<lambda>r. id_col r \<noteq> id_col EXCLUDED \<and> creators.slug r = creators.slug EXCLUDED) t
      then Inl (unique_violation ''idx_creators_slug'')
      else case creators_row t (id_col EXCLUDED) of
             Some old \<Rightarrow>
               Inr (map (\<lambda>r. if id_col r = id_col EXCLUDED
                             then creators_do_update now r EXCLUDED else r) t)
           | None \<Rightarrow> Inr (t @ [EXCLUDED]))"

text \<open>The body of one iteration.  \<^verbatim>\<open>SELECT EXISTS(...), data_hash INTO v_exists,
  v_existing_hash FROM creators WHERE id = ...\<close> leaves both variables NULL when no row
  has the id.\<close>

definition upsert_creator ::
  "pg \<Rightarrow> timestamptz \<Rightarrow> creators list \<Rightarrow> json \<Rightarrow> sql_error + outcome \<times> creators list" where
  "upsert_creator pg now t creator =
    (let v_data_hash = jsonb_get_text pg creator ''data_hash'' in
     sql_bind (cast (to_bigint pg) (jsonb_get_text pg creator ''id'')) (\<lambda>k.
     let found = (case k of None \<Rightarrow> None | Some i \<Rightarrow> creators_row t i);
         v_exists = map_option (\<lambda>r. True) found;
         v_existing_hash = (case found of None \<Rightarrow> None | Some r \<Rightarrow> creators.data_hash r)
     in if data_changed v_exists v_existing_hash v_data_hash
        then sql_bind (creators_values pg now creator v_data_hash) (\<lambda>EXCLUDED.
             sql_bind (creators_insert_on_conflict now t EXCLUDED) (\<lambda>t'.
             Inr (if v_exists = Some True then Updated else Inserted, t')))
        else Inr (Unchanged, t)))"

definition upsert_creators_bulk ::
  "pg \<Rightarrow> timestamptz \<Rightarrow> json option \<Rightarrow> creators list \<Rightarrow> sql_error + bulk_result \<times> creators list" where
  "upsert_creators_bulk pg now creators_data t =
     bulk_function (upsert_creator pg now) (jsonb_build_error pg ''creator_id'' ''id'')
       creators_data t"

subsection \<open>projects and upsert\_projects\_bulk\<close>

text \<open>The columns of \<open>projects\<close> that \<open>upsert_projects_bulk\<close> writes, and the two
  timestamps.  The table's other columns (\<open>percent_funded\<close>, \<open>staff_pick\<close>, \<open>video\<close>, the
  currency conversion columns, ...) take their defaults on insert and are not named in
  the update list.\<close>

record projects =
  id_col :: int
  creator_id :: int
  name :: string
  blurb :: "string option"
  slug :: string
  state :: string
  country :: string
  country_displayable_name :: "string option"
  currency :: string
  goal :: numeric
  pledged :: "numeric option"
  backers_count :: "int option"
  state_changed_at :: "timestamptz option"
  created_at_ks :: timestamptz
  launched_at :: "timestamptz option"
  deadline :: "timestamptz option"
  photo :: "json option"
  category :: "json option"
  location :: "json option"
  profile :: "json option"
  urls :: "json option"
  data_hash :: "string option"
  created_at :: "timestamptz option"
  updated_at :: "timestamptz option"

text \<open>Storing a NUMERIC into a \<open>DECIMAL(15, 2)\<close> column rounds it; a value with too many
  digits raises.\<close>

definition decimal_15_2 :: "pg \<Rightarrow> numeric option \<Rightarrow> sql_error + numeric option" where
  "decimal_15_2 pg x =
     (case x of
        None \<Rightarrow> Inr None
      | Some n \<Rightarrow> (case numeric_15_2 pg n of
                     None \<Rightarrow> Inl numeric_value_out_of_range
                   | Some m \<Rightarrow> Inr (Some m)))"

definition projects_values ::
  "pg \<Rightarrow> timestamptz \<Rightarrow> json \<Rightarrow> string option \<Rightarrow> sql_error + projects" where
  "projects_values pg now project v_data_hash =
    (let txt = jsonb_get_text pg project in
     sql_bind (cast (to_bigint pg) (txt ''id'')) (\<lambda>x_id.
     sql_bind (cast (to_bigint pg) (txt ''creator_id'')) (\<lambda>x_creator_id.
     sql_bind (varchar 1000 (txt ''name'')) (\<lambda>x_name.
     sql_bind (varchar 500 (txt ''slug'')) (\<lambda>x_slug.
     sql_bind (varchar 50 (txt ''state'')) (\<lambda>x_state.
     sql_bind (varchar 2 (txt ''country'')) (\<lambda>x_country.
     sql_bind (varchar 255 (txt ''country_displayable_name'')) (\<lambda>x_country_displayable_name.
     sql_bind (varchar 3 (txt ''currency'')) (\<lambda>x_currency.
     sql_bind (sql_bind (cast (to_numeric pg) (txt ''goal'')) (decimal_15_2 pg)) (\<lambda>x_goal.
     sql_bind (sql_bind (cast (to_numeric pg) (txt ''pledged'')) (decimal_15_2 pg)) (\<lambda>x_pledged.
     sql_bind (cast (to_integer pg) (txt ''backers_count'')) (\<lambda>x_backers_count.
     sql_bind (cast (to_timestamptz pg) (NULLIF (txt ''state_changed_at'') [])) (\<lambda>x_state_changed_at.
     sql_bind (cast (to_timestamptz pg) (txt ''created_at_ks'')) (\<lambda>x_created_at_ks.
     sql_bind (cast (to_timestamptz pg) (NULLIF (txt ''launched_at'') [])) (\<lambda>x_launched_at.
     sql_bind (cast (to_timestamptz pg) (NULLIF (txt ''deadline'') [])) (\<lambda>x_deadline.
     sql_bind (not_null ''id'' x_id) (\<lambda>n_id.
     sql_bind (not_null ''creator_id'' x_creator_id) (\<lambda>n_creator_id.
     sql_bind (not_null ''name'' x_name) (\<lambda>n_name.
     sql_bind (not_null ''slug'' x_slug) (\<lambda>n_slug.
     sql_bind (not_null ''state'' x_state) (\<lambda>n_state.
     sql_bind (not_null ''country'' x_country) (\<lambda>n_country.
     sql_bind (not_null ''currency'' x_currency) (\<lambda>n_currency.
     sql_bind (not_null ''goal'' x_goal) (\<lambda>n_goal.
     sql_bind (not_null ''created_at_ks'' x_created_at_ks) (\<lambda>n_created_at_ks.
     Inr \<lparr>id_col = n_id,
          creator_id = n_creator_id,
          name = n_name,
          blurb = txt ''blurb'',
          slug = n_slug,
          state = n_state,
          country = n_country,
          country_displayable_name = x_country_displayable_name,
          currency = n_currency,
          goal = n_goal,
          pledged = x_pledged,
          backers_count = x_backers_count,
          state_changed_at = x_state_changed_at,
          created_at_ks = n_created_at_ks,
          launched_at = x_launched_at,
          deadline = x_deadline,
          photo = jsonb_get project ''photo'',
          category = jsonb_get project ''category'',
          location = jsonb_get project ''location'',
          profile = jsonb_get project ''profile'',
          urls = jsonb_get project ''urls'',
          data_hash = v_data_hash,
          created_at = Some now,
          updated_at = Some now\<rparr>)))))))))))))))))))))))))"

definition projects_do_update :: "timestamptz \<Rightarrow> projects \<Rightarrow> projects \<Rightarrow> projects" where
  "projects_do_update now old EXCLUDED =
     old\<lparr>projects.creator_id := projects.creator_id EXCLUDED,
         projects.name := projects.name EXCLUDED,
         blurb := blurb EXCLUDED,
         projects.slug := projects.slug EXCLUDED,
         state := state EXCLUDED,
         country := country EXCLUDED,
         country_displayable_name := country_displayable_name EXCLUDED,
         currency := currency EXCLUDED,
         goal := goal EXCLUDED,
         pledged := pledged EXCLUDED,
         backers_count := backers_count EXCLUDED,
         state_changed_at := state_changed_at EXCLUDED,
         created_at_ks := created_at_ks EXCLUDED,
         launched_at := launched_at EXCLUDED,
         deadline := deadline EXCLUDED,
         photo := photo EXCLUDED,
         category := category EXCLUDED,
         location := location EXCLUDED,
         profile := profile EXCLUDED,
         projects.urls := projects.urls EXCLUDED,
         projects.data_hash := projects.data_hash EXCLUDED,
         projects.updated_at := Some now\<rparr>"

definition projects_row :: "projects list \<Rightarrow> int \<Rightarrow> projects option" where
  "projects_row t k = find (\<lambda>r. projects.id_col r = k) t"

text \<open>The write.  \<open>idx_projects_slug\<close> is a unique index; the foreign key \<open>fk_creator\<close>
  is checked for an inserted row and for an updated row whose \<open>creator_id\<close> changes.\<close>

definition projects_insert_on_conflict ::
  "timestamptz \<Rightarrow> creators list \<Rightarrow> projects list \<Rightarrow> projects \<Rightarrow> sql_error + projects list" where
  "projects_insert_on_conflict now cs t EXCLUDED =
     (if list_ex (\<lambda>r. projects.id_col r \<noteq> projects.id_col EXCLUDED \<and>
                       projects.slug r = projects.slug EXCLUDED) t
      then Inl (unique_violation ''idx_projects_slug'')
      else case projects_row t (projects.id_col EXCLUDED) of
             Some old \<Rightarrow>
               if projects.creator_id old \<noteq> projects.creator_id EXCLUDED \<and>
                  \<not> list_ex (\<lambda>c. creators.id_col c = projects.creator_id EXCLUDED) cs
               then Inl (foreign_key_violation ''fk_creator'')
               else Inr (map (\<lambda>r. if projects.id_col r = projects.id_col EXCLUDED
                                  then projects_do_update now r EXCLUDED else r) t)
           | None \<Rightarrow>
               if list_ex (\<lambda>c. creators.id_col c = projects.creator_id EXCLUDED) cs
               then Inr (t @ [EXCLUDED])
               else Inl (foreign_key_violation ''fk_creator''))"

definition upsert_project ::
  "pg \<Rightarrow> timestamptz \<Rightarrow> creators list \<Rightarrow> projects list \<Rightarrow> json \<Rightarrow>
   sql_error + outcome \<times> projects list" where
  "upsert_project pg now cs t project =
    (let v_data_hash = jsonb_get_text pg project ''data_hash'' in
     sql_bind (cast (to_bigint pg) (jsonb_get_text pg project ''id'')) (\<lambda>k.
     let found = (case k of None \<Rightarrow> None | Some i \<Rightarrow> projects_row t i);
         v_exists = map_option (\<lambda>r. True) found;
         v_existing_hash = (case found of None \<Rightarrow> None | Some r \<Rightarrow> projects.data_hash r)
     in if data_changed v_exists v_existing_hash v_data_hash
        then sql_bind (projects_values pg now project v_data_hash) (\<lambda>EXCLUDED.
             sql_bind (projects_insert_on_conflict now cs t EXCLUDED) (\<lambda>t'.
             Inr (if v_exists = Some True then Updated else Inserted, t')))
        else Inr (Unchanged, t)))"

definition upsert_projects_bulk ::
  "pg \<Rightarrow> timestamptz \<Rightarrow> creators list \<Rightarrow> json option \<Rightarrow> projects list \<Rightarrow>
   sql_error + bulk_result \<times> projects list" where
  "upsert_projects_bulk pg now cs projects_data t =
     bulk_function (upsert_project pg now cs) (jsonb_build_error pg ''project_id'' ''id'')
       projects_data t"

section \<open>The domain blocklist\<close>

text \<open>Table \<open>firecrawl_blocked_domains\<close>; \<open>domain\<close> is its primary key.\<close>

record firecrawl_blocked_domains =
  domain :: string
  reason :: "string option"
  source :: "string option"
  notes_col :: "string option"
  created_at :: "timestamptz option"
  updated_at :: "timestamptz option"





definition blocked_do_update ::
  "timestamptz \<Rightarrow> firecrawl_blocked_domains \<Rightarrow> firecrawl_blocked_domains \<Rightarrow>
   firecrawl_blocked_domains" where
  "blocked_do_update now old EXCLUDED =
     old\<lparr>reason := COALESCE (reason EXCLUDED) (reason old),
         source := COALESCE (source EXCLUDED) (source old),
         firecrawl_blocked_domains.notes_col :=
           COALESCE (firecrawl_blocked_domains.notes_col EXCLUDED)
                    (firecrawl_blocked_domains.notes_col old),
         firecrawl_blocked_domains.updated_at := Some now\<rparr>"



section \<open>The pipeline state (supabase/tables/pipeline\_state.sql)\<close>

record pipeline_state =
  id_col :: int
  last_run_at :: "timestamptz option"
  last_project_created_at :: "timestamptz option"
  last_contact_check_at :: "timestamptz option"
  last_site_hash :: "string option"
  run_notes :: "string option"
  pipeline_version :: "string option"
  created_at :: "timestamptz option"
  updated_at :: "timestamptz option"

text \<open>The constraints of the table, \<^verbatim>\<open>id SMALLINT PRIMARY KEY DEFAULT 1 CHECK (id = 1)\<close>:
  a statement whose result breaks one of them raises and changes nothing.\<close>

definition pipeline_state_check :: "pipeline_state list \<Rightarrow> sql_error + pipeline_state list" where
  "pipeline_state_check t =
     (if \<not> list_all (\<lambda>r. pipeline_state.id_col r = 1) t
      then Inl (check_violation ''pipeline_state_id_check'')
      else if \<not> distinct (map pipeline_state.id_col t)
      then Inl (unique_violation ''pipeline_state_pkey'')
      else Inr t)"

text \<open>A table that satisfies both constraints.\<close>

definition pipeline_state_valid :: "pipeline_state list \<Rightarrow> bool" where
  "pipeline_state_valid t \<longleftrightarrow>
     list_all (\<lambda>r. pipeline_state.id_col r = 1) t \<and> distinct (map pipeline_state.id_col t)"

text \<open>The statements that can write the table: INSERT of a row, INSERT with
  \<open>ON CONFLICT (id) DO NOTHING\<close>, UPDATE of the rows matching a condition (the trigger
  \<open>set_pipeline_state_updated_at\<close> sets \<open>updated_at\<close>), and DELETE.\<close>

datatype pipeline_state_statement =
    Insert pipeline_state
  | Insert_Do_Nothing pipeline_state
  | Update "pipeline_state \<Rightarrow> bool" "pipeline_state \<Rightarrow> pipeline_state"
  | Delete "pipeline_state \<Rightarrow> bool"

fun pipeline_state_execute ::
  "timestamptz \<Rightarrow> pipeline_state_statement \<Rightarrow> pipeline_state list \<Rightarrow>
   sql_error + pipeline_state list" where
  "pipeline_state_execute now (Insert r) t = pipeline_state_check (t @ [r])"
| "pipeline_state_execute now (Insert_Do_Nothing r) t =
     (if list_ex (\<lambda>x. pipeline_state.id_col x = pipeline_state.id_col r) t
      then Inr t
      else pipeline_state_check (t @ [r]))"
| "pipeline_state_execute now (Update cond f) t =
     pipeline_state_check
       (map (\<lambda>r. if cond r then (f r)\<lparr>pipeline_state.updated_at := Some now\<rparr> else r) t)"
| "pipeline_state_execute now (Delete cond) t = Inr (filter (\<lambda>r. \<not> cond r) t)"

text \<open>A history of statements from the empty table; a statement that raises is skipped.\<close>

fun pipeline_state_run ::
  "timestamptz \<Rightarrow> pipeline_state_statement list \<Rightarrow> pipeline_state list \<Rightarrow> pipeline_state list" where
  "pipeline_state_run now [] t = t"
| "pipeline_state_run now (s # ss) t =
     pipeline_state_run now ss
       (case pipeline_state_execute now s t of Inl e \<Rightarrow> t | Inr t' \<Rightarrow> t')"

text \<open>The setup script: \<^verbatim>\<open>CREATE TABLE IF NOT EXISTS pipeline_state (...)\<close> and then
  \<^verbatim>\<open>INSERT INTO pipeline_state (id) VALUES (1) ON CONFLICT (id) DO NOTHING\<close>.
  The table is \<open>None\<close> before it is created.\<close>

definition pipeline_state_default_row :: "timestamptz \<Rightarrow> pipeline_state" where
  "pipeline_state_default_row now =
     \<lparr>id_col = 1, last_run_at = None, last_project_created_at = None,
      last_contact_check_at = None, last_site_hash = None, run_notes = None,
      pipeline_version = None, created_at = Some now, updated_at = Some now\<rparr>"

definition pipeline_state_setup ::
  "timestamptz \<Rightarrow> pipeline_state list option \<Rightarrow> sql_error + pipeline_state list" where
  "pipeline_state_setup now tbl =
     (let t = (case tbl of None \<Rightarrow> [] | Some t \<Rightarrow> t)
      in pipeline_state_execute now (Insert_Do_Nothing (pipeline_state_default_row now)) t)"

section \<open>The client-facing view\<close>






subsection \<open>The definition with all projects and a WHERE clause (unnamed/part\_001)\<close>

record contacts_view_row =
  creator_id :: int
  creator_name :: string
  creator_slug :: "string option"
  email :: "string option"
  email_source_url :: "string option"
  contact_form_url :: "string option"
  has_contact_form :: "bool option"
  project_names :: "string option"
  project_urls :: "string option"
  project_countries :: "string option"
  project_blurbs :: "string option"
  creator_websites :: "string option"






subsection \<open>The definition with the latest project (supabase/views/customer\_contacts\_view.sql)\<close>

record contacts_view_latest_row =
  creator_id :: int
  creator_name :: string
  creator_slug :: "string option"
  email :: "string option"
  email_source_url :: "string option"
  contact_form_url :: "string option"
  has_contact_form :: "bool option"
  latest_project_name :: "string option"
  latest_project_slug :: "string option"
  project_country :: "string option"
  project_blurb :: "string option"
  creator_websites :: "json option"



section \<open>A batch, entity by entity\<close>

text \<open>The notions in which the properties of a whole call are stated: the outcome of
  each entity of a batch in order (the condition its block raised, or what its write
  did), the table after the batch when every entity that raised changed nothing, and
  the error objects of the entities that raised.\<close>

fun outcomes ::
  "('t \<Rightarrow> json \<Rightarrow> sql_error + outcome \<times> 't) \<Rightarrow> json list \<Rightarrow> 't \<Rightarrow> (sql_error + outcome) list" where
  "outcomes body [] t = []"
| "outcomes body (rec # recs) t =
     (case body t rec of
        Inl err \<Rightarrow> Inl err # outcomes body recs t
      | Inr (oc, t') \<Rightarrow> Inr oc # outcomes body recs t')"

fun final_table ::
  "('t \<Rightarrow> json \<Rightarrow> sql_error + outcome \<times> 't) \<Rightarrow> json list \<Rightarrow> 't \<Rightarrow> 't" where
  "final_table body [] t = t"
| "final_table body (rec # recs) t =
     final_table body recs (case body t rec of Inl err \<Rightarrow> t | Inr (oc, t') \<Rightarrow> t')"

fun error_entries ::
  "('t \<Rightarrow> json \<Rightarrow> sql_error + outcome \<times> 't) \<Rightarrow> (json \<Rightarrow> sql_error \<Rightarrow> json) \<Rightarrow>
   json list \<Rightarrow> 't \<Rightarrow> json list" where
  "error_entries body on_error [] t = []"
| "error_entries body on_error (rec # recs) t =
     (case body t rec of
        Inl err \<Rightarrow> on_error rec err # error_entries body on_error recs t
      | Inr (oc, t') \<Rightarrow> error_entries body on_error recs t')"

definition count_outcome :: "(sql_error + outcome) \<Rightarrow> (sql_error + outcome) list \<Rightarrow> int" where
  "count_outcome oc ocs = int (length (filter (\<lambda>x. x = oc) ocs))"

definition count_failed :: "(sql_error + outcome) list \<Rightarrow> int" where
  "count_failed ocs = int (length (filter isl ocs))"

text \<open>A snapshot whose id is stored with the \<open>data_hash\<close> the snapshot carries.\<close>

definition creator_hash_stored :: "pg \<Rightarrow> creators list \<Rightarrow> json \<Rightarrow> bool" where
  "creator_hash_stored pg t creator =
     (case cast (to_bigint pg) (jsonb_get_text pg creator ''id'') of
        Inr (Some i) \<Rightarrow>
          (case creators_row t i of
             Some r \<Rightarrow> creators.data_hash r \<noteq> None \<and>
                       creators.data_hash r = jsonb_get_text pg creator ''data_hash''
           | None \<Rightarrow> False)
      | _ \<Rightarrow> False)"

definition project_hash_stored :: "pg \<Rightarrow> projects list \<Rightarrow> json \<Rightarrow> bool" where
  "project_hash_stored pg t project =
     (case cast (to_bigint pg) (jsonb_get_text pg project ''id'') of
        Inr (Some i) \<Rightarrow>
          (case projects_row t i of
             Some r \<Rightarrow> projects.data_hash r \<noteq> None \<and>
                       projects.data_hash r = jsonb_get_text pg project ''data_hash''
           | None \<Rightarrow> False)
      | _ \<Rightarrow> False)"

text \<open>The id of a snapshot as the functions read it, for comparing the ids of a batch.\<close>

definition snapshot_id :: "pg \<Rightarrow> json \<Rightarrow> sql_error + int option" where
  "snapshot_id pg rec = cast (to_bigint pg) (jsonb_get_text pg rec ''id'')"

section \<open>An engine and rows for examples\<close>

text \<open>An instance of the engine's input functions, enough to run the functions above on
  concrete payloads: integers and timestamps are read as decimal digits, booleans as
  \<open>true\<close> and \<open>false\<close>.\<close>

definition is_digit :: "char \<Rightarrow> bool" where
  "is_digit c = (CHR ''0'' \<le> c \<and> c \<le> CHR ''9'')"

definition decimal :: "string \<Rightarrow> int option" where
  "decimal s =
     (if s \<noteq> [] \<and> list_all is_digit s
      then Some (foldl (\<lambda>a c. 10 * a + (of_char c - 48)) 0 s)
      else None)"

fun example_jsonb_out :: "json \<Rightarrow> string" where
  "example_jsonb_out (JNum n) = n"
| "example_jsonb_out (JBool b) = (if b then ''true'' else ''false'')"
| "example_jsonb_out _ = ''...''"

fun example_sqlerrm :: "sql_error \<Rightarrow> string" where
  "example_sqlerrm invalid_text_representation = ''invalid input syntax''"
| "example_sqlerrm (not_null_violation c) = ''null value in column '' @ c"
| "example_sqlerrm (string_data_right_truncation n) = ''value too long for type character varying''"
| "example_sqlerrm numeric_value_out_of_range = ''numeric field overflow''"
| "example_sqlerrm (unique_violation c) = ''duplicate key value violates unique constraint '' @ c"
| "example_sqlerrm (foreign_key_violation c) = ''violates foreign key constraint '' @ c"
| "example_sqlerrm (check_violation c) = ''violates check constraint '' @ c"
| "example_sqlerrm invalid_parameter_value = ''cannot extract elements''"

definition example_pg :: pg where
  "example_pg =
     \<lparr>to_bigint = decimal,
      to_integer = decimal,
      to_boolean = map_of [(''true'', True), (''false'', False)],
      to_numeric = (\<lambda>s. if decimal s = None then None else Some s),
      numeric_15_2 = (\<lambda>n. if length n \<le> 13 then Some n else None),
      to_timestamptz = decimal,
      jsonb_out = example_jsonb_out,
      sqlerrm = example_sqlerrm\<rparr>"

text \<open>A creator, and an outreach row as a first sync without contact data leaves it.\<close>

definition example_creator :: "int \<Rightarrow> creators" where
  "example_creator k =
     \<lparr>creators.id_col = k, slug = None, name = ''Ada'', is_registered = None,
      is_email_verified = None, chosen_currency = None, is_superbacker = None,
      has_admin_message_badge = Some False, ppo_has_action = Some False,
      backing_action_count = Some 0, avatar = None, urls = None,
      websites = Some (JArr []), data_hash = None,
      created_at = Some 0, updated_at = Some 0\<rparr>"

definition example_outreach :: "int \<Rightarrow> creator_outreach" where
  "example_outreach k =
     \<lparr>creator_outreach.creator_id = k, outreach_status = ''not_contacted'',
      has_instagram = Some False, has_facebook = Some False, has_twitter = Some False,
      has_youtube = Some False, has_tiktok = Some False, has_linkedin = Some False,
      has_patreon = Some False, has_discord = Some False, has_twitch = Some False,
      has_bluesky = Some False, has_other_website = Some False,
      email = None, email_source_url = None, has_contact_form = Some False,
      contact_form_url = None, last_contact_check_at = None,
      contact_status = Some ''not_checked'', contact_error = None,
      contact_attempts = Some 0, site_hash = None,
      instagram_url = None, facebook_url = None, twitter_url = None, linkedin_url = None,
      youtube_url = None, tiktok_url = None, other_urls = None,
      first_contacted_at = None, last_contacted_at = None, response_received_at = None,
      contact_method = None, notes_col = None, tags = Some [], priority = Some 0,
      follow_up_date = None, created_at = Some 0, updated_at = Some 0\<rparr>"

text \<open>A project of creator 1.\<close>

definition example_project :: "int \<Rightarrow> projects" where
  "example_project k =
     \<lparr>projects.id_col = k, creator_id = 1, name = ''Lamp'', blurb = None, slug = ''lamp'',
      state = ''live'', country = ''US'', country_displayable_name = None, currency = ''USD'',
      goal = ''100'', pledged = None, backers_count = None, state_changed_at = None,
      created_at_ks = 1, launched_at = None, deadline = None, photo = None, category = None,
      location = None, profile = None, urls = None, data_hash = None,
      created_at = Some 0, updated_at = Some 0\<rparr>"

section \<open>Basic facts\<close>

lemma sql_bindE:
  assumes "sql_bind m f = Inr y"
  obtains v where "m = Inr v" and "f v = Inr y"
  using assms by (cases m) (simp_all add: sql_bind_def)

lemma sql_bind_Inr [simp]: "sql_bind (Inr v) f = f v"
  by (simp add: sql_bind_def)

lemma sql_bind_Inl [simp]: "sql_bind (Inl e) f = Inl e"
  by (simp add: sql_bind_def)

subsection \<open>The loop\<close>

lemma loop_body_table_invariant:
  assumes "\<And>t oc t'. P t \<Longrightarrow> body t rec = Inr (oc, t') \<Longrightarrow> P t'"
    and "P (table s)"
  shows "P (table (loop_body body on_error s rec))"
  using assms
  by (auto simp: loop_body_def Let_def split: sum.splits outcome.splits)

lemma bulk_loop_table_invariant:
  assumes "\<And>t rec oc t'. P t \<Longrightarrow> body t rec = Inr (oc, t') \<Longrightarrow> P t'"
    and "P (table s)"
  shows "P (table (bulk_loop body on_error recs s))"
  using assms(2)
proof (induction recs arbitrary: s)
  case Nil
  then show ?case by simp
next
  case (Cons rec recs)
  have "P (table (loop_body body on_error s rec))"
    using assms(1) Cons.prems by (rule loop_body_table_invariant)
  then show ?case using Cons.IH by simp
qed

lemma bulk_function_table_invariant:
  assumes "\<And>t rec oc t'. P t \<Longrightarrow> body t rec = Inr (oc, t') \<Longrightarrow> P t'"
    and "P t"
    and "bulk_function body on_error data t = Inr (res, t')"
  shows "P t'"
proof -
  from assms(3) obtain recs where
    t': "t' = table (bulk_loop body on_error recs
            \<lparr>v_inserted = 0, v_updated = 0, v_total = 0, v_errors = [], table = t\<rparr>)"
    unfolding bulk_function_def by (elim sql_bindE) (auto simp: Let_def)
  show ?thesis
    unfolding t' by (rule bulk_loop_table_invariant[where P = P, OF assms(1)]) (simp_all add: assms(2))
qed

lemma bulk_function_array:
  "\<exists>res t'. bulk_function body on_error (Some (JArr recs)) t = Inr (res, t')"
  by (simp add: bulk_function_def Let_def)

subsection \<open>Rows of creator\_outreach\<close>

lemma outreach_row_map:
  assumes "\<And>r. creator_outreach.creator_id (f r) = creator_outreach.creator_id r"
  shows "outreach_row (map f t) k = map_option f (outreach_row t k)"
  using assms by (induction t) (simp_all add: outreach_row_def)

lemma outreach_row_append:
  "outreach_row (t @ [x]) k =
     (case outreach_row t k of
        Some r \<Rightarrow> Some r
      | None \<Rightarrow> if creator_outreach.creator_id x = k then Some x else None)"
  by (induction t) (simp_all add: outreach_row_def)

lemma outreach_row_key:
  "outreach_row t k = Some r \<Longrightarrow> creator_outreach.creator_id r = k"
  by (auto simp: outreach_row_def dest: find_Some_iff[THEN iffD1])

lemma creator_id_do_update [simp]:
  "creator_outreach.creator_id (outreach_do_update now old E) = creator_outreach.creator_id old"
  by (simp add: outreach_do_update_def)

lemma notes_do_update [simp]:
  "creator_outreach.notes_col (outreach_do_update now old E) = creator_outreach.notes_col old"
  by (simp add: outreach_do_update_def)

lemma status_do_update:
  "outreach_status (outreach_do_update now old E) =
     (if outreach_status old = ''not_contacted'' then outreach_status E else outreach_status old)"
  by (simp add: outreach_do_update_def)

lemma outreach_row_insert_on_conflict:
  assumes "outreach_insert_on_conflict now cs t E = Inr t'"
  shows "outreach_row t' k =
     (if k = creator_outreach.creator_id E
      then Some (case outreach_row t k of
                   Some old \<Rightarrow> outreach_do_update now old E
                 | None \<Rightarrow> E)
      else outreach_row t k)"
proof (cases "outreach_row t (creator_outreach.creator_id E)")
  case None
  with assms have "t' = t @ [E]"
    by (simp add: outreach_insert_on_conflict_def split: if_splits)
  with None show ?thesis
    by (auto simp: outreach_row_append split: option.splits)
next
  case (Some old)
  let ?f = "\<lambda>r. if creator_outreach.creator_id r = creator_outreach.creator_id E
                 then outreach_do_update now r E else r"
  from Some assms have t': "t' = map ?f t"
    by (simp add: outreach_insert_on_conflict_def)
  have "outreach_row t' k = map_option ?f (outreach_row t k)"
    unfolding t' by (rule outreach_row_map) simp
  then show ?thesis using Some
    by (cases "outreach_row t k") (auto dest: outreach_row_key)
qed

lemma sync_creator_outreachE:
  assumes "sync_creator_outreach pg now cs t outreach = Inr (oc, t')"
  obtains E where "outreach_values pg now outreach = Inr E"
    and "outreach_insert_on_conflict now cs t E = Inr t'"
  using assms unfolding sync_creator_outreach_def Let_def
  by (elim sql_bindE) simp

subsection \<open>Unfolding the model on concrete data\<close>

lemmas engine_defs =
  example_pg_def decimal_def is_digit_def cast_def varchar_def not_null_def
  COALESCE_def NULLIF_def jsonb_get_text_def Let_def

lemmas outreach_defs =
  sync_creator_outreach_bulk_def bulk_function_def loop_body_def jsonb_build_error_def
  sync_creator_outreach_def outreach_values_def outreach_insert_on_conflict_def
  outreach_do_update_def outreach_row_def example_outreach_def example_creator_def

lemmas creators_defs =
  upsert_creators_bulk_def bulk_function_def loop_body_def jsonb_build_error_def
  upsert_creator_def creators_values_def creators_insert_on_conflict_def creators_do_update_def
  creators_row_def data_changed_def sql_or_def sql_not_def sql_neq_def is_null_def
  example_creator_def

lemmas projects_defs =
  upsert_projects_bulk_def bulk_function_def loop_body_def jsonb_build_error_def
  upsert_project_def projects_values_def projects_insert_on_conflict_def projects_do_update_def
  projects_row_def decimal_15_2_def data_changed_def sql_or_def sql_not_def sql_neq_def
  is_null_def example_creator_def

subsection \<open>The loop, entity by entity\<close>

lemma count_outcome_simps [simp]:
  "count_outcome oc [] = 0"
  "count_outcome oc (x # xs) = (if x = oc then 1 else 0) + count_outcome oc xs"
  "count_failed [] = 0"
  "count_failed (x # xs) = (if isl x then 1 else 0) + count_failed xs"
  by (simp_all add: count_outcome_def count_failed_def)

lemma bulk_loop_char:
  "bulk_loop body on_error recs s =
     \<lparr>v_inserted = v_inserted s + count_outcome (Inr Inserted) (outcomes body recs (table s)),
      v_updated = v_updated s + count_outcome (Inr Updated) (outcomes body recs (table s)),
      v_total = v_total s + int (length recs),
      v_errors = v_errors s @ error_entries body on_error recs (table s),
      table = final_table body recs (table s)\<rparr>"
proof (induction recs arbitrary: s)
  case Nil
  show ?case by simp
next
  case (Cons rec recs)
  show ?case
  proof (cases "body (table s) rec")
    case (Inl err)
    then show ?thesis
      by (simp add: Cons.IH loop_body_def)
  next
    case (Inr p)
    obtain oc t' where p: "p = (oc, t')" by (cases p)
    with Inr show ?thesis
      by (cases oc) (simp_all add: Cons.IH loop_body_def)
  qed
qed

lemma final_table_append:
  "final_table body (xs @ ys) t = final_table body ys (final_table body xs t)"
  by (induction xs arbitrary: t) simp_all

lemma outcomes_append:
  "outcomes body (xs @ ys) t = outcomes body xs t @ outcomes body ys (final_table body xs t)"
  by (induction xs arbitrary: t) (simp_all split: sum.splits)

lemma error_entries_append:
  "error_entries body on_error (xs @ ys) t =
     error_entries body on_error xs t @ error_entries body on_error ys (final_table body xs t)"
  by (induction xs arbitrary: t) (simp_all split: sum.splits)

lemma length_outcomes [simp]: "length (outcomes body recs t) = length recs"
  by (induction recs arbitrary: t) (simp_all split: sum.splits)

lemma count_outcome_append [simp]:
  "count_outcome oc (xs @ ys) = count_outcome oc xs + count_outcome oc ys"
  by (simp add: count_outcome_def)

lemma bulk_function_char:
  "bulk_function body on_error (Some (JArr recs)) t =
     Inr (\<lparr>inserted_count = count_outcome (Inr Inserted) (outcomes body recs t),
           updated_count = count_outcome (Inr Updated) (outcomes body recs t),
           total_count = int (length recs),
           errors = JArr (error_entries body on_error recs t)\<rparr>,
          final_table body recs t)"
  by (simp add: bulk_function_def Let_def bulk_loop_char)

lemma bulk_function_isolates:
  assumes "body (final_table body xs t) e = Inl err"
  shows "\<exists>res res0 t'.
           bulk_function body on_error (Some (JArr (xs @ e # ys))) t = Inr (res, t') \<and>
           bulk_function body on_error (Some (JArr (xs @ ys))) t = Inr (res0, t') \<and>
           inserted_count res = inserted_count res0 \<and>
           updated_count res = updated_count res0 \<and>
           total_count res = total_count res0 + 1 \<and>
           errors res0 =
             JArr (error_entries body on_error xs t @
                   error_entries body on_error ys (final_table body xs t)) \<and>
           errors res =
             JArr (error_entries body on_error xs t @
                   on_error e err # error_entries body on_error ys (final_table body xs t))"
  using assms
  by (simp add: bulk_function_char final_table_append outcomes_append error_entries_append)

lemma outcome_counts:
  "int (length ocs) =
     count_outcome (Inr Inserted) ocs + count_outcome (Inr Updated) ocs +
     count_outcome (Inr Unchanged) ocs + count_failed ocs"
proof (induction ocs)
  case Nil
  show ?case by simp
next
  case (Cons x xs)
  show ?case
  proof (cases x)
    case (Inl e)
    with Cons show ?thesis by simp
  next
    case (Inr oc)
    with Cons show ?thesis by (cases oc) simp_all
  qed
qed

lemma length_error_entries:
  "int (length (error_entries body on_error recs t)) = count_failed (outcomes body recs t)"
  by (induction recs arbitrary: t) (simp_all split: sum.splits)

section \<open>Preserving the operator's outreach state\<close>

text \<open>
  Claim C1.  For a row that exists in \<open>creator_outreach\<close>, a call of
  \<open>sync_creator_outreach_bulk\<close> with any payload leaves the row in place with its stored
  notes, and with its stored \<open>outreach_status\<close> whenever that is not \<open>'not_contacted'\<close>:
  the status is set only when the stored value is \<open>'not_contacted'\<close>, and then the merge
  of one payload row puts the incoming value there.
\<close>

theorem sync_preserves_outreach_status_and_notes:
  assumes "outreach_row t k = Some r"
    and "sync_creator_outreach_bulk pg now cs outreach_data t = Inr (res, t')"
  shows "\<exists>r'. outreach_row t' k = Some r' \<and>
              creator_outreach.notes_col r' = creator_outreach.notes_col r \<and>
              (outreach_status r \<noteq> ''not_contacted'' \<longrightarrow> outreach_status r' = outreach_status r) \<and>
              (\<forall>EXCLUDED.
                 creator_outreach.notes_col (outreach_do_update now r EXCLUDED) =
                   creator_outreach.notes_col r \<and>
                 outreach_status (outreach_do_update now r EXCLUDED) =
                   (if outreach_status r = ''not_contacted''
                    then outreach_status EXCLUDED else outreach_status r))"
proof -
  let ?P = "\<lambda>t. \<exists>r'. outreach_row t k = Some r' \<and>
              creator_outreach.notes_col r' = creator_outreach.notes_col r \<and>
              (outreach_status r \<noteq> ''not_contacted'' \<longrightarrow> outreach_status r' = outreach_status r)"
  have step: "?P t2" if P: "?P t1" and run: "sync_creator_outreach pg now cs t1 rec = Inr (oc, t2)"
    for t1 rec oc t2
  proof -
    from run obtain E where E: "outreach_insert_on_conflict now cs t1 E = Inr t2"
      by (rule sync_creator_outreachE)
    from P obtain r1 where r1: "outreach_row t1 k = Some r1"
      "creator_outreach.notes_col r1 = creator_outreach.notes_col r"
      "outreach_status r \<noteq> ''not_contacted'' \<longrightarrow> outreach_status r1 = outreach_status r"
      by blast
    show ?thesis
      using r1 by (auto simp: outreach_row_insert_on_conflict[OF E] status_do_update)
  qed
  have "?P t'"
    using assms(2) unfolding sync_creator_outreach_bulk_def
    by (rule bulk_function_table_invariant[where P = ?P, rotated 2])
       (use step assms(1) in auto)
  then show ?thesis
    by (auto simp: status_do_update)
qed

text \<open>The example of the specification: the stored status is \<open>'partnership'\<close> with notes
  \<open>'call Tuesday'\<close>, the batch carries \<open>'not_contacted'\<close> and no notes.\<close>

theorem sync_preserves_outreach_status_and_notes_witness:
  "outreach_row [(example_outreach 1)\<lparr>outreach_status := ''partnership'',
                    creator_outreach.notes_col := Some ''call Tuesday''\<rparr>] 1 =
     Some ((example_outreach 1)\<lparr>outreach_status := ''partnership'',
                    creator_outreach.notes_col := Some ''call Tuesday''\<rparr>) \<and>
   sync_creator_outreach_bulk example_pg 5 [example_creator 1]
     (Some (JArr [JObj [(''creator_id'', JNum ''1''),
                        (''outreach_status'', JStr ''not_contacted'')]]))
     [(example_outreach 1)\<lparr>outreach_status := ''partnership'',
                    creator_outreach.notes_col := Some ''call Tuesday''\<rparr>] =
     Inr (\<lparr>inserted_count = 0, updated_count = 1, total_count = 1, errors = JArr []\<rparr>,
          [(example_outreach 1)\<lparr>outreach_status := ''partnership'',
                    creator_outreach.notes_col := Some ''call Tuesday'',
                    creator_outreach.updated_at := Some 5\<rparr>]) \<and>
   (\<exists>r'. outreach_row [(example_outreach 1)\<lparr>outreach_status := ''partnership'',
                    creator_outreach.notes_col := Some ''call Tuesday'',
                    creator_outreach.updated_at := Some 5\<rparr>] 1 = Some r' \<and>
         creator_outreach.notes_col r' = Some ''call Tuesday'' \<and>
         outreach_status r' = ''partnership'')"
proof -
  let ?r = "(example_outreach 1)\<lparr>outreach_status := ''partnership'',
                    creator_outreach.notes_col := Some ''call Tuesday''\<rparr>"
  let ?t' = "[?r\<lparr>creator_outreach.updated_at := Some 5\<rparr>]"
  have row: "outreach_row [?r] 1 = Some ?r"
    by (simp add: outreach_row_def example_outreach_def)
  have run: "sync_creator_outreach_bulk example_pg 5 [example_creator 1]
     (Some (JArr [JObj [(''creator_id'', JNum ''1''),
                        (''outreach_status'', JStr ''not_contacted'')]])) [?r] =
     Inr (\<lparr>inserted_count = 0, updated_count = 1, total_count = 1, errors = JArr []\<rparr>, ?t')"
    by (simp add: outreach_defs engine_defs)
  have status: "outreach_status ?r \<noteq> ''not_contacted''"
    by simp
  from sync_preserves_outreach_status_and_notes[OF row run] status
  have "\<exists>r'. outreach_row ?t' 1 = Some r' \<and>
         creator_outreach.notes_col r' = Some ''call Tuesday'' \<and>
         outreach_status r' = ''partnership''"
    by auto
  with row run show ?thesis by simp
qed

section \<open>Merging the discovered contact fields\<close>

text \<open>For the text columns and the check timestamp, an incoming NULL keeps the stored
  value and an incoming value replaces it.\<close>

lemma do_update_coalesce_columns:
  "creator_outreach.email (outreach_do_update now old E) =
     COALESCE (creator_outreach.email E) (creator_outreach.email old)"
  "creator_outreach.email_source_url (outreach_do_update now old E) =
     COALESCE (creator_outreach.email_source_url E) (creator_outreach.email_source_url old)"
  "creator_outreach.contact_form_url (outreach_do_update now old E) =
     COALESCE (creator_outreach.contact_form_url E) (creator_outreach.contact_form_url old)"
  "creator_outreach.last_contact_check_at (outreach_do_update now old E) =
     COALESCE (creator_outreach.last_contact_check_at E) (creator_outreach.last_contact_check_at old)"
  "contact_error (outreach_do_update now old E) = COALESCE (contact_error E) (contact_error old)"
  "site_hash (outreach_do_update now old E) = COALESCE (site_hash E) (site_hash old)"
  by (simp_all add: outreach_do_update_def)

text \<open>
  Claim C2.  It says that a payload with only an email leaves a stored
  \<open>contact_form_url\<close> and \<open>has_contact_form\<close> intact, and that an absent incoming value
  never replaces a stored one.  The function run on that input: creator 1 has
  \<open>contact_form_url = 'https://x.com/contact'\<close>, \<open>has_contact_form = true\<close>,
  \<open>contact_status = 'completed'\<close> and \<open>contact_attempts = 1\<close>; the payload is
  \<open>[{"creator_id": 1, "email": "a@b.com"}]\<close>.  The URL stays, but
  \<open>has_contact_form\<close>, \<open>contact_status\<close> and \<open>contact_attempts\<close> are replaced by
  \<open>false\<close>, \<open>'not_checked'\<close> and \<open>0\<close>: the VALUES list wraps these three in
  \<open>COALESCE(..., default)\<close>, so EXCLUDED is never NULL for them and the
  \<open>COALESCE(EXCLUDED.x, creator_outreach.x)\<close> of the update list never falls back.
\<close>

theorem sync_email_only_resets_contact_form_flag:
  "sync_creator_outreach_bulk example_pg 5 [example_creator 1]
     (Some (JArr [JObj [(''creator_id'', JNum ''1''), (''email'', JStr ''a@b.com'')]]))
     [(example_outreach 1)\<lparr>creator_outreach.contact_form_url := Some ''https://x.com/contact'',
                           creator_outreach.has_contact_form := Some True,
                           contact_status := Some ''completed'',
                           contact_attempts := Some 1\<rparr>] =
   Inr (\<lparr>inserted_count = 0, updated_count = 1, total_count = 1, errors = JArr []\<rparr>,
        [(example_outreach 1)\<lparr>creator_outreach.email := Some ''a@b.com'',
                              creator_outreach.contact_form_url := Some ''https://x.com/contact'',
                              creator_outreach.has_contact_form := Some False,
                              contact_status := Some ''not_checked'',
                              contact_attempts := Some 0,
                              creator_outreach.updated_at := Some 5\<rparr>])"
  by (simp add: outreach_defs engine_defs)

section \<open>The generated column has\_any\_contact\<close>

lemma has_any_contact_iff:
  "has_any_contact r \<longleftrightarrow>
     creator_outreach.email r \<noteq> None \<or> creator_outreach.has_contact_form r = Some True"
  by (cases "creator_outreach.has_contact_form r") (auto simp: has_any_contact_def COALESCE_def)

text \<open>
  Claim C4.  It says that \<open>has_any_contact\<close> is true exactly when the email is
  non-empty or \<open>has_contact_form\<close> is true.  The generated column tests
  \<open>email IS NOT NULL\<close>, and the sync stores \<open>outreach->>'email'\<close> as it comes: for the
  payload \<open>[{"creator_id": 1, "email": ""}]\<close> and a creator without an outreach row, the
  inserted row has the empty email, no contact form, and \<open>has_any_contact = true\<close>.
\<close>

theorem has_any_contact_true_for_empty_email:
  "sync_creator_outreach_bulk example_pg 5 [example_creator 1]
     (Some (JArr [JObj [(''creator_id'', JNum ''1''), (''email'', JStr [])]])) [] =
   Inr (\<lparr>inserted_count = 1, updated_count = 0, total_count = 1, errors = JArr []\<rparr>,
        [(example_outreach 1)\<lparr>creator_outreach.email := Some [],
                              creator_outreach.created_at := Some 5,
                              creator_outreach.updated_at := Some 5\<rparr>]) \<and>
   has_any_contact ((example_outreach 1)\<lparr>creator_outreach.email := Some [],
                              creator_outreach.created_at := Some 5,
                              creator_outreach.updated_at := Some 5\<rparr>) \<and>
   \<not> ((creator_outreach.email ((example_outreach 1)\<lparr>creator_outreach.email := Some [],
                              creator_outreach.created_at := Some 5,
                              creator_outreach.updated_at := Some 5\<rparr>) \<noteq> None \<and>
        creator_outreach.email ((example_outreach 1)\<lparr>creator_outreach.email := Some [],
                              creator_outreach.created_at := Some 5,
                              creator_outreach.updated_at := Some 5\<rparr>) \<noteq> Some []) \<or>
       creator_outreach.has_contact_form ((example_outreach 1)\<lparr>creator_outreach.email := Some [],
                              creator_outreach.created_at := Some 5,
                              creator_outreach.updated_at := Some 5\<rparr>) = Some True)"
  by (simp add: outreach_defs engine_defs has_any_contact_def)

text \<open>The inserted row alone: an empty email and no contact form, yet the column is true.\<close>

theorem has_any_contact_true_for_empty_email_witness:
  "has_any_contact ((example_outreach 1)\<lparr>creator_outreach.email := Some [],
                              creator_outreach.created_at := Some 5,
                              creator_outreach.updated_at := Some 5\<rparr>) \<and>
   creator_outreach.email ((example_outreach 1)\<lparr>creator_outreach.email := Some [],
                              creator_outreach.created_at := Some 5,
                              creator_outreach.updated_at := Some 5\<rparr>) = Some [] \<and>
   creator_outreach.has_contact_form ((example_outreach 1)\<lparr>creator_outreach.email := Some [],
                              creator_outreach.created_at := Some 5,
                              creator_outreach.updated_at := Some 5\<rparr>) = Some False"
  using has_any_contact_true_for_empty_email
  by (simp add: example_outreach_def)

section \<open>Change detection by data\_hash\<close>

lemma creators_values_Inr:
  assumes "creators_values pg now creator h = Inr E"
  shows "cast (to_bigint pg) (jsonb_get_text pg creator ''id'') = Inr (Some (creators.id_col E))"
    and "creators.data_hash E = h"
  using assms[unfolded creators_values_def Let_def]
  by (elim sql_bindE; auto simp: not_null_def split: option.splits)+

lemma projects_values_Inr:
  assumes "projects_values pg now project h = Inr E"
  shows "cast (to_bigint pg) (jsonb_get_text pg project ''id'') = Inr (Some (projects.id_col E))"
    and "projects.data_hash E = h"
  using assms[unfolded projects_values_def Let_def]
  by (elim sql_bindE; auto simp: not_null_def split: option.splits)+

lemma data_changed_stored [simp]: "\<not> data_changed (Some True) (Some h) (Some h)"
  by (simp add: data_changed_def sql_or_def sql_not_def sql_neq_def is_null_def)

lemma data_changed_hashed:
  assumes "\<not> data_changed (map_option (\<lambda>r. True) found)
             (case found of None \<Rightarrow> None | Some r \<Rightarrow> f r) (Some h)"
  shows "\<exists>r. found = Some r \<and> f r = Some h"
proof (cases found)
  case None
  with assms show ?thesis
    by (simp add: data_changed_def sql_or_def sql_not_def sql_neq_def is_null_def)
next
  case (Some r)
  with assms show ?thesis
    by (cases "f r")
       (auto simp: data_changed_def sql_or_def sql_not_def sql_neq_def is_null_def split: if_splits)
qed

subsection \<open>Creators\<close>

lemma creators_row_map:
  assumes "\<And>r. creators.id_col (f r) = creators.id_col r"
  shows "creators_row (map f t) k = map_option f (creators_row t k)"
  using assms by (induction t) (simp_all add: creators_row_def)

lemma creators_row_append:
  "creators_row (t @ [x]) k =
     (case creators_row t k of
        Some r \<Rightarrow> Some r
      | None \<Rightarrow> if creators.id_col x = k then Some x else None)"
  by (induction t) (simp_all add: creators_row_def)

lemma creators_row_key: "creators_row t k = Some r \<Longrightarrow> creators.id_col r = k"
  by (auto simp: creators_row_def dest: find_Some_iff[THEN iffD1])

lemma id_col_creators_do_update [simp]:
  "creators.id_col (creators_do_update now old E) = creators.id_col old"
  by (simp add: creators_do_update_def)

lemma data_hash_creators_do_update [simp]:
  "creators.data_hash (creators_do_update now old E) = creators.data_hash E"
  by (simp add: creators_do_update_def)

lemma creators_row_insert_on_conflict:
  assumes "creators_insert_on_conflict now t E = Inr t'"
  shows "creators_row t' k =
     (if k = creators.id_col E
      then Some (case creators_row t k of
                   Some old \<Rightarrow> creators_do_update now old E
                 | None \<Rightarrow> E)
      else creators_row t k)"
proof (cases "creators_row t (creators.id_col E)")
  case None
  with assms have "t' = t @ [E]"
    by (simp add: creators_insert_on_conflict_def split: if_splits)
  with None show ?thesis
    by (auto simp: creators_row_append split: option.splits)
next
  case (Some old)
  let ?f = "\<lambda>r. if creators.id_col r = creators.id_col E then creators_do_update now r E else r"
  from Some assms have t': "t' = map ?f t"
    by (simp add: creators_insert_on_conflict_def split: if_splits)
  have "creators_row t' k = map_option ?f (creators_row t k)"
    unfolding t' by (rule creators_row_map) simp
  then show ?thesis using Some
    by (cases "creators_row t k") (auto dest: creators_row_key)
qed

lemma creator_hash_stored_iff:
  "creator_hash_stored pg t creator \<longleftrightarrow>
     (\<exists>i r h. snapshot_id pg creator = Inr (Some i) \<and> creators_row t i = Some r \<and>
              creators.data_hash r = Some h \<and> jsonb_get_text pg creator ''data_hash'' = Some h)"
  by (auto simp: creator_hash_stored_def snapshot_id_def split: sum.splits option.splits)

lemma upsert_creator_stored:
  assumes "creator_hash_stored pg t creator"
  shows "upsert_creator pg now t creator = Inr (Unchanged, t)"
  using assms
  by (auto simp: creator_hash_stored_iff snapshot_id_def upsert_creator_def Let_def)

lemma upsert_creator_cases:
  assumes "upsert_creator pg now t creator = Inr (oc, t')"
  obtains (unchanged) k where "snapshot_id pg creator = Inr k" "t' = t" "oc = Unchanged"
      "\<not> data_changed (map_option (\<lambda>r. True) (case k of None \<Rightarrow> None | Some i \<Rightarrow> creators_row t i))
           (case (case k of None \<Rightarrow> None | Some i \<Rightarrow> creators_row t i) of
              None \<Rightarrow> None | Some r \<Rightarrow> creators.data_hash r)
           (jsonb_get_text pg creator ''data_hash'')"
    | (written) E where "creators_values pg now creator (jsonb_get_text pg creator ''data_hash'') = Inr E"
      "creators_insert_on_conflict now t E = Inr t'"
proof -
  from assms obtain k where k: "snapshot_id pg creator = Inr k"
    unfolding upsert_creator_def snapshot_id_def Let_def by (elim sql_bindE) simp
  let ?found = "case k of None \<Rightarrow> None | Some i \<Rightarrow> creators_row t i"
  let ?changed = "data_changed (map_option (\<lambda>r. True) ?found)
           (case ?found of None \<Rightarrow> None | Some r \<Rightarrow> creators.data_hash r)
           (jsonb_get_text pg creator ''data_hash'')"
  show thesis
  proof (cases ?changed)
    case True
    with assms k obtain E where
      "creators_values pg now creator (jsonb_get_text pg creator ''data_hash'') = Inr E"
      "creators_insert_on_conflict now t E = Inr t'"
      unfolding upsert_creator_def snapshot_id_def Let_def
      by (auto elim!: sql_bindE)
    then show thesis by (rule written)
  next
    case False
    with assms k have same: "t' = t" "oc = Unchanged"
      unfolding upsert_creator_def snapshot_id_def Let_def by auto
    from k same False show thesis by (rule unchanged)
  qed
qed

lemma upsert_creator_settles:
  assumes "upsert_creator pg now t creator = Inr (oc, t')"
    and "jsonb_get_text pg creator ''data_hash'' \<noteq> None"
  shows "creator_hash_stored pg t' creator"
  using assms(1)
proof (cases rule: upsert_creator_cases)
  case (unchanged k)
  from assms(2) obtain h where h: "jsonb_get_text pg creator ''data_hash'' = Some h" by auto
  from data_changed_hashed[OF unchanged(4)[unfolded h]] unchanged(1,2) h show ?thesis
    by (cases k) (auto simp: creator_hash_stored_iff)
next
  case (written E)
  from assms(2) obtain h where h: "jsonb_get_text pg creator ''data_hash'' = Some h" by auto
  from creators_values_Inr[OF written(1)] h
  have "snapshot_id pg creator = Inr (Some (creators.id_col E))" "creators.data_hash E = Some h"
    by (simp_all add: snapshot_id_def)
  moreover have "\<exists>r. creators_row t' (creators.id_col E) = Some r \<and> creators.data_hash r = creators.data_hash E"
    by (auto simp: creators_row_insert_on_conflict[OF written(2)] split: option.splits)
  ultimately show ?thesis using h
    by (auto simp: creator_hash_stored_iff)
qed

lemma upsert_creator_keeps_others:
  assumes "upsert_creator pg now t creator = Inr (oc, t')"
    and "creator_hash_stored pg t other"
    and "snapshot_id pg other \<noteq> snapshot_id pg creator"
  shows "creator_hash_stored pg t' other"
  using assms(1)
proof (cases rule: upsert_creator_cases)
  case (unchanged k)
  with assms(2) show ?thesis by simp
next
  case (written E)
  from assms(2) obtain i r h where o: "snapshot_id pg other = Inr (Some i)"
    "creators_row t i = Some r" "creators.data_hash r = Some h"
    "jsonb_get_text pg other ''data_hash'' = Some h"
    by (auto simp: creator_hash_stored_iff)
  from creators_values_Inr(1)[OF written(1)]
  have "snapshot_id pg creator = Inr (Some (creators.id_col E))"
    by (simp add: snapshot_id_def)
  with assms(3) o(1) have "i \<noteq> creators.id_col E" by auto
  then have "creators_row t' i = creators_row t i"
    by (simp add: creators_row_insert_on_conflict[OF written(2)])
  with o show ?thesis
    by (auto simp: creator_hash_stored_iff)
qed

subsection \<open>Projects\<close>

lemma projects_row_map:
  assumes "\<And>r. projects.id_col (f r) = projects.id_col r"
  shows "projects_row (map f t) k = map_option f (projects_row t k)"
  using assms by (induction t) (simp_all add: projects_row_def)

lemma projects_row_append:
  "projects_row (t @ [x]) k =
     (case projects_row t k of
        Some r \<Rightarrow> Some r
      | None \<Rightarrow> if projects.id_col x = k then Some x else None)"
  by (induction t) (simp_all add: projects_row_def)

lemma projects_row_key: "projects_row t k = Some r \<Longrightarrow> projects.id_col r = k"
  by (auto simp: projects_row_def dest: find_Some_iff[THEN iffD1])

lemma id_col_projects_do_update [simp]:
  "projects.id_col (projects_do_update now old E) = projects.id_col old"
  by (simp add: projects_do_update_def)

lemma data_hash_projects_do_update [simp]:
  "projects.data_hash (projects_do_update now old E) = projects.data_hash E"
  by (simp add: projects_do_update_def)

lemma projects_row_insert_on_conflict:
  assumes "projects_insert_on_conflict now cs t E = Inr t'"
  shows "projects_row t' k =
     (if k = projects.id_col E
      then Some (case projects_row t k of
                   Some old \<Rightarrow> projects_do_update now old E
                 | None \<Rightarrow> E)
      else projects_row t k)"
proof (cases "projects_row t (projects.id_col E)")
  case None
  with assms have "t' = t @ [E]"
    by (simp add: projects_insert_on_conflict_def split: if_splits)
  with None show ?thesis
    by (auto simp: projects_row_append split: option.splits)
next
  case (Some old)
  let ?f = "\<lambda>r. if projects.id_col r = projects.id_col E then projects_do_update now r E else r"
  from Some assms have t': "t' = map ?f t"
    by (simp add: projects_insert_on_conflict_def split: if_splits)
  have "projects_row t' k = map_option ?f (projects_row t k)"
    unfolding t' by (rule projects_row_map) simp
  then show ?thesis using Some
    by (cases "projects_row t k") (auto dest: projects_row_key)
qed

lemma project_hash_stored_iff:
  "project_hash_stored pg t project \<longleftrightarrow>
     (\<exists>i r h. snapshot_id pg project = Inr (Some i) \<and> projects_row t i = Some r \<and>
              projects.data_hash r = Some h \<and> jsonb_get_text pg project ''data_hash'' = Some h)"
  by (auto simp: project_hash_stored_def snapshot_id_def split: sum.splits option.splits)

lemma upsert_project_stored:
  assumes "project_hash_stored pg t project"
  shows "upsert_project pg now cs t project = Inr (Unchanged, t)"
  using assms
  by (auto simp: project_hash_stored_iff snapshot_id_def upsert_project_def Let_def)

lemma upsert_project_cases:
  assumes "upsert_project pg now cs t project = Inr (oc, t')"
  obtains (unchanged) k where "snapshot_id pg project = Inr k" "t' = t" "oc = Unchanged"
      "\<not> data_changed (map_option (\<lambda>r. True) (case k of None \<Rightarrow> None | Some i \<Rightarrow> projects_row t i))
           (case (case k of None \<Rightarrow> None | Some i \<Rightarrow> projects_row t i) of
              None \<Rightarrow> None | Some r \<Rightarrow> projects.data_hash r)
           (jsonb_get_text pg project ''data_hash'')"
    | (written) E where "projects_values pg now project (jsonb_get_text pg project ''data_hash'') = Inr E"
      "projects_insert_on_conflict now cs t E = Inr t'"
proof -
  from assms obtain k where k: "snapshot_id pg project = Inr k"
    unfolding upsert_project_def snapshot_id_def Let_def by (elim sql_bindE) simp
  let ?found = "case k of None \<Rightarrow> None | Some i \<Rightarrow> projects_row t i"
  let ?changed = "data_changed (map_option (\<lambda>r. True) ?found)
           (case ?found of None \<Rightarrow> None | Some r \<Rightarrow> projects.data_hash r)
           (jsonb_get_text pg project ''data_hash'')"
  show thesis
  proof (cases ?changed)
    case True
    with assms k obtain E where
      "projects_values pg now project (jsonb_get_text pg project ''data_hash'') = Inr E"
      "projects_insert_on_conflict now cs t E = Inr t'"
      unfolding upsert_project_def snapshot_id_def Let_def
      by (auto elim!: sql_bindE)
    then show thesis by (rule written)
  next
    case False
    with assms k have same: "t' = t" "oc = Unchanged"
      unfolding upsert_project_def snapshot_id_def Let_def by auto
    from k same False show thesis by (rule unchanged)
  qed
qed

lemma upsert_project_settles:
  assumes "upsert_project pg now cs t project = Inr (oc, t')"
    and "jsonb_get_text pg project ''data_hash'' \<noteq> None"
  shows "project_hash_stored pg t' project"
  using assms(1)
proof (cases rule: upsert_project_cases)
  case (unchanged k)
  from assms(2) obtain h where h: "jsonb_get_text pg project ''data_hash'' = Some h" by auto
  from data_changed_hashed[OF unchanged(4)[unfolded h]] unchanged(1,2) h show ?thesis
    by (cases k) (auto simp: project_hash_stored_iff)
next
  case (written E)
  from assms(2) obtain h where h: "jsonb_get_text pg project ''data_hash'' = Some h" by auto
  from projects_values_Inr[OF written(1)] h
  have "snapshot_id pg project = Inr (Some (projects.id_col E))" "projects.data_hash E = Some h"
    by (simp_all add: snapshot_id_def)
  moreover have "\<exists>r. projects_row t' (projects.id_col E) = Some r \<and> projects.data_hash r = projects.data_hash E"
    by (auto simp: projects_row_insert_on_conflict[OF written(2)] split: option.splits)
  ultimately show ?thesis using h
    by (auto simp: project_hash_stored_iff)
qed

lemma upsert_project_keeps_others:
  assumes "upsert_project pg now cs t project = Inr (oc, t')"
    and "project_hash_stored pg t other"
    and "snapshot_id pg other \<noteq> snapshot_id pg project"
  shows "project_hash_stored pg t' other"
  using assms(1)
proof (cases rule: upsert_project_cases)
  case (unchanged k)
  with assms(2) show ?thesis by simp
next
  case (written E)
  from assms(2) obtain i r h where o: "snapshot_id pg other = Inr (Some i)"
    "projects_row t i = Some r" "projects.data_hash r = Some h"
    "jsonb_get_text pg other ''data_hash'' = Some h"
    by (auto simp: project_hash_stored_iff)
  from projects_values_Inr(1)[OF written(1)]
  have "snapshot_id pg project = Inr (Some (projects.id_col E))"
    by (simp add: snapshot_id_def)
  with assms(3) o(1) have "i \<noteq> projects.id_col E" by auto
  then have "projects_row t' i = projects_row t i"
    by (simp add: projects_row_insert_on_conflict[OF written(2)])
  with o show ?thesis
    by (auto simp: project_hash_stored_iff)
qed

subsection \<open>A batch run twice\<close>

lemma no_errors_Cons:
  assumes "error_entries body on_error (rec # recs) t = []"
  obtains oc t' where "body t rec = Inr (oc, t')" and "error_entries body on_error recs t' = []"
    and "final_table body (rec # recs) t = final_table body recs t'"
  using assms by (cases "body t rec") (auto split: prod.splits)

lemma batch_settles:
  assumes settle: "\<And>t e oc t'. body t e = Inr (oc, t') \<Longrightarrow> hashed e \<Longrightarrow> settled t' e"
    and keep: "\<And>t e oc t' x. body t e = Inr (oc, t') \<Longrightarrow> settled t x \<Longrightarrow> key x \<noteq> key e
                 \<Longrightarrow> settled t' x"
  shows "distinct (map key recs) \<Longrightarrow> \<forall>e \<in> set recs. hashed e \<Longrightarrow>
         error_entries body on_error recs t = [] \<Longrightarrow>
         \<forall>x \<in> S. settled t x \<and> key x \<notin> key ` set recs \<Longrightarrow>
         \<forall>x \<in> S \<union> set recs. settled (final_table body recs t) x"
proof (induction recs arbitrary: t S)
  case Nil
  then show ?case by simp
next
  case (Cons rec recs)
  from Cons.prems(3) obtain oc t' where step: "body t rec = Inr (oc, t')"
    and rest: "error_entries body on_error recs t' = []"
    and final: "final_table body (rec # recs) t = final_table body recs t'"
    by (rule no_errors_Cons)
  have here: "settled t' rec"
    using step Cons.prems(2) by (auto intro: settle)
  have others: "settled t' x" if "x \<in> S" for x
  proof -
    from that Cons.prems(4) have "settled t x" "key x \<noteq> key rec" by auto
    with step show ?thesis by (rule keep)
  qed
  have "\<forall>x \<in> insert rec S \<union> set recs. settled (final_table body recs t') x"
  proof (rule Cons.IH)
    show "distinct (map key recs)" using Cons.prems(1) by simp
    show "\<forall>e \<in> set recs. hashed e" using Cons.prems(2) by simp
    show "error_entries body on_error recs t' = []" by (rule rest)
    show "\<forall>x \<in> insert rec S. settled t' x \<and> key x \<notin> key ` set recs"
      using here others Cons.prems(1,4) by auto
  qed
  then show ?case
    unfolding final by auto
qed

lemma settled_batch_unchanged:
  assumes "\<forall>e \<in> set recs. body t e = Inr (Unchanged, t)"
  shows "final_table body recs t = t \<and>
         count_outcome (Inr Inserted) (outcomes body recs t) = 0 \<and>
         count_outcome (Inr Updated) (outcomes body recs t) = 0 \<and>
         error_entries body on_error recs t = []"
  using assms by (induction recs) simp_all

lemma bulk_function_second_run:
  assumes settle: "\<And>t e oc t'. body t e = Inr (oc, t') \<Longrightarrow> hashed e \<Longrightarrow> settled t' e"
    and keep: "\<And>t e oc t' x. body t e = Inr (oc, t') \<Longrightarrow> settled t x \<Longrightarrow> key x \<noteq> key e
                 \<Longrightarrow> settled t' x"
    and skip: "\<And>t e. settled t e \<Longrightarrow> body2 t e = Inr (Unchanged, t)"
    and ids: "distinct (map key recs)"
    and hashes: "\<forall>e \<in> set recs. hashed e"
    and first: "bulk_function body on_error (Some (JArr recs)) t = Inr (res, t')"
    and clean: "errors res = JArr []"
  shows "bulk_function body2 on_error2 (Some (JArr recs)) t' =
           Inr (\<lparr>inserted_count = 0, updated_count = 0, total_count = int (length recs),
                 errors = JArr []\<rparr>, t')"
proof -
  from first clean have t': "t' = final_table body recs t"
    and noerr: "error_entries body on_error recs t = []"
    by (auto simp: bulk_function_char)
  have "\<forall>x \<in> {} \<union> set recs. settled (final_table body recs t) x"
    by (rule batch_settles[where hashed = hashed and key = key and body = body
          and on_error = on_error, OF settle keep ids hashes noerr]) simp_all
  then have "\<forall>e \<in> set recs. body2 t' e = Inr (Unchanged, t')"
    unfolding t' by (auto intro: skip)
  from settled_batch_unchanged[where body = body2 and t = t' and recs = recs
      and on_error = on_error2, OF this] show ?thesis
    by (simp add: bulk_function_char)
qed

lemma bulk_function_skips:
  assumes "body (final_table body xs t) e = Inr (Unchanged, final_table body xs t)"
  shows "\<exists>res res0 t'.
           bulk_function body on_error (Some (JArr (xs @ e # ys))) t = Inr (res, t') \<and>
           bulk_function body on_error (Some (JArr (xs @ ys))) t = Inr (res0, t') \<and>
           inserted_count res = inserted_count res0 \<and>
           updated_count res = updated_count res0 \<and>
           errors res = errors res0"
  using assms
  by (simp add: bulk_function_char final_table_append outcomes_append error_entries_append)

text \<open>
  Claim C3, as amended.  A creator or project snapshot whose id is stored with the
  \<open>data_hash\<close> it carries is not written: the body returns the table as it is with the
  outcome \<open>Unchanged\<close>, and in a batch the snapshot adds nothing to the inserted or
  updated counts, to the errors or to the table.  When the ids of a batch are pairwise
  distinct, every snapshot carries a \<open>data_hash\<close> and the first run reports no error,
  a second run of the batch leaves the table as the first run left it and reports zero
  inserted and zero updated.
\<close>

theorem hash_guarded_upserts:
  "(creator_hash_stored pg tc rec \<longrightarrow> upsert_creator pg now tc rec = Inr (Unchanged, tc)) \<and>
   (creator_hash_stored pg (final_table (upsert_creator pg now) xs tc) rec \<longrightarrow>
      (\<exists>res res0 t'.
         upsert_creators_bulk pg now (Some (JArr (xs @ rec # ys))) tc = Inr (res, t') \<and>
         upsert_creators_bulk pg now (Some (JArr (xs @ ys))) tc = Inr (res0, t') \<and>
         inserted_count res = inserted_count res0 \<and>
         updated_count res = updated_count res0 \<and>
         errors res = errors res0)) \<and>
   (distinct (map (snapshot_id pg) recs) \<and>
    (\<forall>e \<in> set recs. jsonb_get_text pg e ''data_hash'' \<noteq> None) \<and>
    upsert_creators_bulk pg now (Some (JArr recs)) tc = Inr (rc, tc') \<and>
    errors rc = JArr [] \<longrightarrow>
      upsert_creators_bulk pg now' (Some (JArr recs)) tc' =
        Inr (\<lparr>inserted_count = 0, updated_count = 0, total_count = int (length recs),
              errors = JArr []\<rparr>, tc')) \<and>
   (project_hash_stored pg tp rec \<longrightarrow> upsert_project pg now cs tp rec = Inr (Unchanged, tp)) \<and>
   (project_hash_stored pg (final_table (upsert_project pg now cs) xs tp) rec \<longrightarrow>
      (\<exists>res res0 t'.
         upsert_projects_bulk pg now cs (Some (JArr (xs @ rec # ys))) tp = Inr (res, t') \<and>
         upsert_projects_bulk pg now cs (Some (JArr (xs @ ys))) tp = Inr (res0, t') \<and>
         inserted_count res = inserted_count res0 \<and>
         updated_count res = updated_count res0 \<and>
         errors res = errors res0)) \<and>
   (distinct (map (snapshot_id pg) recs) \<and>
    (\<forall>e \<in> set recs. jsonb_get_text pg e ''data_hash'' \<noteq> None) \<and>
    upsert_projects_bulk pg now cs (Some (JArr recs)) tp = Inr (rp, tp') \<and>
    errors rp = JArr [] \<longrightarrow>
      upsert_projects_bulk pg now' cs (Some (JArr recs)) tp' =
        Inr (\<lparr>inserted_count = 0, updated_count = 0, total_count = int (length recs),
              errors = JArr []\<rparr>, tp'))"
proof (intro conjI impI)
  assume "creator_hash_stored pg tc rec"
  then show "upsert_creator pg now tc rec = Inr (Unchanged, tc)"
    by (rule upsert_creator_stored)
next
  assume "creator_hash_stored pg (final_table (upsert_creator pg now) xs tc) rec"
  then have "upsert_creator pg now (final_table (upsert_creator pg now) xs tc) rec =
      Inr (Unchanged, final_table (upsert_creator pg now) xs tc)"
    by (rule upsert_creator_stored)
  from bulk_function_skips[where body = "upsert_creator pg now" and ys = ys
      and on_error = "jsonb_build_error pg ''creator_id'' ''id''", OF this]
  show "\<exists>res res0 t'.
         upsert_creators_bulk pg now (Some (JArr (xs @ rec # ys))) tc = Inr (res, t') \<and>
         upsert_creators_bulk pg now (Some (JArr (xs @ ys))) tc = Inr (res0, t') \<and>
         inserted_count res = inserted_count res0 \<and>
         updated_count res = updated_count res0 \<and>
         errors res = errors res0"
    unfolding upsert_creators_bulk_def .
next
  assume a: "distinct (map (snapshot_id pg) recs) \<and>
    (\<forall>e \<in> set recs. jsonb_get_text pg e ''data_hash'' \<noteq> None) \<and>
    upsert_creators_bulk pg now (Some (JArr recs)) tc = Inr (rc, tc') \<and>
    errors rc = JArr []"
  show "upsert_creators_bulk pg now' (Some (JArr recs)) tc' =
        Inr (\<lparr>inserted_count = 0, updated_count = 0, total_count = int (length recs),
              errors = JArr []\<rparr>, tc')"
    unfolding upsert_creators_bulk_def
  proof (rule bulk_function_second_run[where body = "upsert_creator pg now"
        and key = "snapshot_id pg" and settled = "creator_hash_stored pg"
        and hashed = "\<lambda>e. jsonb_get_text pg e ''data_hash'' \<noteq> None"
        and on_error = "jsonb_build_error pg ''creator_id'' ''id''" and t = tc and res = rc])
    show "distinct (map (snapshot_id pg) recs)"
      and "\<forall>e \<in> set recs. jsonb_get_text pg e ''data_hash'' \<noteq> None"
      and "errors rc = JArr []"
      using a by simp_all
    show "bulk_function (upsert_creator pg now) (jsonb_build_error pg ''creator_id'' ''id'')
            (Some (JArr recs)) tc = Inr (rc, tc')"
      using a by (simp add: upsert_creators_bulk_def)
  qed (auto intro: upsert_creator_settles upsert_creator_keeps_others upsert_creator_stored)
next
  assume "project_hash_stored pg tp rec"
  then show "upsert_project pg now cs tp rec = Inr (Unchanged, tp)"
    by (rule upsert_project_stored)
next
  assume "project_hash_stored pg (final_table (upsert_project pg now cs) xs tp) rec"
  then have "upsert_project pg now cs (final_table (upsert_project pg now cs) xs tp) rec =
      Inr (Unchanged, final_table (upsert_project pg now cs) xs tp)"
    by (rule upsert_project_stored)
  from bulk_function_skips[where body = "upsert_project pg now cs" and ys = ys
      and on_error = "jsonb_build_error pg ''project_id'' ''id''", OF this]
  show "\<exists>res res0 t'.
         upsert_projects_bulk pg now cs (Some (JArr (xs @ rec # ys))) tp = Inr (res, t') \<and>
         upsert_projects_bulk pg now cs (Some (JArr (xs @ ys))) tp = Inr (res0, t') \<and>
         inserted_count res = inserted_count res0 \<and>
         updated_count res = updated_count res0 \<and>
         errors res = errors res0"
    unfolding upsert_projects_bulk_def .
next
  assume a: "distinct (map (snapshot_id pg) recs) \<and>
    (\<forall>e \<in> set recs. jsonb_get_text pg e ''data_hash'' \<noteq> None) \<and>
    upsert_projects_bulk pg now cs (Some (JArr recs)) tp = Inr (rp, tp') \<and>
    errors rp = JArr []"
  show "upsert_projects_bulk pg now' cs (Some (JArr recs)) tp' =
        Inr (\<lparr>inserted_count = 0, updated_count = 0, total_count = int (length recs),
              errors = JArr []\<rparr>, tp')"
    unfolding upsert_projects_bulk_def
  proof (rule bulk_function_second_run[where body = "upsert_project pg now cs"
        and key = "snapshot_id pg" and settled = "project_hash_stored pg"
        and hashed = "\<lambda>e. jsonb_get_text pg e ''data_hash'' \<noteq> None"
        and on_error = "jsonb_build_error pg ''project_id'' ''id''" and t = tp and res = rp])
    show "distinct (map (snapshot_id pg) recs)"
      and "\<forall>e \<in> set recs. jsonb_get_text pg e ''data_hash'' \<noteq> None"
      and "errors rp = JArr []"
      using a by simp_all
    show "bulk_function (upsert_project pg now cs) (jsonb_build_error pg ''project_id'' ''id'')
            (Some (JArr recs)) tp = Inr (rp, tp')"
      using a by (simp add: upsert_projects_bulk_def)
  qed (auto intro: upsert_project_settles upsert_project_keeps_others upsert_project_stored)
qed

text \<open>Creator 1 and project 7, each inserted by a first run and met again by a second.\<close>

theorem hash_guarded_upserts_witness:
  "creator_hash_stored example_pg
     [(example_creator 1)\<lparr>creators.data_hash := Some ''h1'', creators.created_at := Some 5,
                           creators.updated_at := Some 5\<rparr>]
     (JObj [(''id'', JNum ''1''), (''name'', JStr ''Ada''), (''data_hash'', JStr ''h1'')]) \<and>
   upsert_creator example_pg 6
     [(example_creator 1)\<lparr>creators.data_hash := Some ''h1'', creators.created_at := Some 5,
                           creators.updated_at := Some 5\<rparr>]
     (JObj [(''id'', JNum ''1''), (''name'', JStr ''Ada''), (''data_hash'', JStr ''h1'')]) =
     Inr (Unchanged,
          [(example_creator 1)\<lparr>creators.data_hash := Some ''h1'', creators.created_at := Some 5,
                                creators.updated_at := Some 5\<rparr>]) \<and>
   distinct (map (snapshot_id example_pg)
     [JObj [(''id'', JNum ''1''), (''name'', JStr ''Ada''), (''data_hash'', JStr ''h1'')]]) \<and>
   jsonb_get_text example_pg
     (JObj [(''id'', JNum ''1''), (''name'', JStr ''Ada''), (''data_hash'', JStr ''h1'')])
     ''data_hash'' = Some ''h1'' \<and>
   upsert_creators_bulk example_pg 5
     (Some (JArr [JObj [(''id'', JNum ''1''), (''name'', JStr ''Ada''), (''data_hash'', JStr ''h1'')]])) [] =
     Inr (\<lparr>inserted_count = 1, updated_count = 0, total_count = 1, errors = JArr []\<rparr>,
          [(example_creator 1)\<lparr>creators.data_hash := Some ''h1'', creators.created_at := Some 5,
                                creators.updated_at := Some 5\<rparr>]) \<and>
   upsert_creators_bulk example_pg 6
     (Some (JArr [JObj [(''id'', JNum ''1''), (''name'', JStr ''Ada''), (''data_hash'', JStr ''h1'')]]))
     [(example_creator 1)\<lparr>creators.data_hash := Some ''h1'', creators.created_at := Some 5,
                           creators.updated_at := Some 5\<rparr>] =
     Inr (\<lparr>inserted_count = 0, updated_count = 0, total_count = 1, errors = JArr []\<rparr>,
          [(example_creator 1)\<lparr>creators.data_hash := Some ''h1'', creators.created_at := Some 5,
                                creators.updated_at := Some 5\<rparr>]) \<and>
   project_hash_stored example_pg
     [(example_project 7)\<lparr>projects.data_hash := Some ''p1'', projects.created_at := Some 5,
                           projects.updated_at := Some 5\<rparr>]
     (JObj [(''id'', JNum ''7''), (''creator_id'', JNum ''1''), (''name'', JStr ''Lamp''),
            (''slug'', JStr ''lamp''), (''state'', JStr ''live''), (''country'', JStr ''US''),
            (''currency'', JStr ''USD''), (''goal'', JNum ''100''), (''created_at_ks'', JNum ''1''),
            (''data_hash'', JStr ''p1'')]) \<and>
   upsert_projects_bulk example_pg 5 [example_creator 1]
     (Some (JArr [JObj [(''id'', JNum ''7''), (''creator_id'', JNum ''1''), (''name'', JStr ''Lamp''),
            (''slug'', JStr ''lamp''), (''state'', JStr ''live''), (''country'', JStr ''US''),
            (''currency'', JStr ''USD''), (''goal'', JNum ''100''), (''created_at_ks'', JNum ''1''),
            (''data_hash'', JStr ''p1'')]])) [] =
     Inr (\<lparr>inserted_count = 1, updated_count = 0, total_count = 1, errors = JArr []\<rparr>,
          [(example_project 7)\<lparr>projects.data_hash := Some ''p1'', projects.created_at := Some 5,
                                projects.updated_at := Some 5\<rparr>]) \<and>
   upsert_projects_bulk example_pg 6 [example_creator 1]
     (Some (JArr [JObj [(''id'', JNum ''7''), (''creator_id'', JNum ''1''), (''name'', JStr ''Lamp''),
            (''slug'', JStr ''lamp''), (''state'', JStr ''live''), (''country'', JStr ''US''),
            (''currency'', JStr ''USD''), (''goal'', JNum ''100''), (''created_at_ks'', JNum ''1''),
            (''data_hash'', JStr ''p1'')]]))
     [(example_project 7)\<lparr>projects.data_hash := Some ''p1'', projects.created_at := Some 5,
                           projects.updated_at := Some 5\<rparr>] =
     Inr (\<lparr>inserted_count = 0, updated_count = 0, total_count = 1, errors = JArr []\<rparr>,
          [(example_project 7)\<lparr>projects.data_hash := Some ''p1'', projects.created_at := Some 5,
                                projects.updated_at := Some 5\<rparr>])"
proof -
  let ?c = "JObj [(''id'', JNum ''1''), (''name'', JStr ''Ada''), (''data_hash'', JStr ''h1'')]"
  let ?crow = "(example_creator 1)\<lparr>creators.data_hash := Some ''h1'', creators.created_at := Some 5,
                           creators.updated_at := Some 5\<rparr>"
  let ?p = "JObj [(''id'', JNum ''7''), (''creator_id'', JNum ''1''), (''name'', JStr ''Lamp''),
            (''slug'', JStr ''lamp''), (''state'', JStr ''live''), (''country'', JStr ''US''),
            (''currency'', JStr ''USD''), (''goal'', JNum ''100''), (''created_at_ks'', JNum ''1''),
            (''data_hash'', JStr ''p1'')]"
  let ?prow = "(example_project 7)\<lparr>projects.data_hash := Some ''p1'', projects.created_at := Some 5,
                           projects.updated_at := Some 5\<rparr>"
  have c_stored: "creator_hash_stored example_pg [?crow] ?c"
    by (simp add: creator_hash_stored_def creators_defs engine_defs)
  have c_ids: "distinct (map (snapshot_id example_pg) [?c])"
    by simp
  have c_hash: "jsonb_get_text example_pg ?c ''data_hash'' = Some ''h1''"
    by (simp add: engine_defs)
  have c_first: "upsert_creators_bulk example_pg 5 (Some (JArr [?c])) [] =
     Inr (\<lparr>inserted_count = 1, updated_count = 0, total_count = 1, errors = JArr []\<rparr>, [?crow])"
    by (simp add: creators_defs engine_defs)
  have p_stored: "project_hash_stored example_pg [?prow] ?p"
    by (simp add: project_hash_stored_def projects_defs engine_defs example_project_def)
  have p_hash: "jsonb_get_text example_pg ?p ''data_hash'' = Some ''p1''"
    by (simp add: engine_defs)
  have p_first: "upsert_projects_bulk example_pg 5 [example_creator 1] (Some (JArr [?p])) [] =
     Inr (\<lparr>inserted_count = 1, updated_count = 0, total_count = 1, errors = JArr []\<rparr>, [?prow])"
    by (simp add: projects_defs engine_defs example_project_def)
  note stored = hash_guarded_upserts[where pg = example_pg and now = 6 and tc = "[?crow]"
      and rec = ?c, THEN conjunct1, rule_format, OF c_stored]
  note again = hash_guarded_upserts[where pg = example_pg and now = 5 and now' = 6
      and tc = "[]" and recs = "[?c]" and tc' = "[?crow]"
      and rc = "\<lparr>inserted_count = 1, updated_count = 0, total_count = 1, errors = JArr []\<rparr>",
      THEN conjunct2, THEN conjunct2, THEN conjunct1, rule_format]
  have c_second: "upsert_creators_bulk example_pg 6 (Some (JArr [?c])) [?crow] =
     Inr (\<lparr>inserted_count = 0, updated_count = 0, total_count = 1, errors = JArr []\<rparr>, [?crow])"
    using again c_ids c_hash c_first by simp
  note p_again = hash_guarded_upserts[where pg = example_pg and now = 5 and now' = 6
      and cs = "[example_creator 1]" and tp = "[]" and recs = "[?p]" and tp' = "[?prow]"
      and rp = "\<lparr>inserted_count = 1, updated_count = 0, total_count = 1, errors = JArr []\<rparr>",
      THEN conjunct2, THEN conjunct2, THEN conjunct2, THEN conjunct2, THEN conjunct2, rule_format]
  have p_second: "upsert_projects_bulk example_pg 6 [example_creator 1] (Some (JArr [?p])) [?prow] =
     Inr (\<lparr>inserted_count = 0, updated_count = 0, total_count = 1, errors = JArr []\<rparr>, [?prow])"
    using p_again p_hash p_first by simp
  from c_stored stored c_ids c_hash c_first c_second p_stored p_first p_second show ?thesis
    by blast
qed

text \<open>
  The second sentence of the claim fails as stated.  First batch: creator 2 asks for the
  slug \<open>ada\<close>, which creator 1 holds until the next entity of the batch renames it.  The
  first run reports the unique violation for creator 2 and updates creator 1; the
  second run of the same batch inserts creator 2, so it changes the table and reports
  one inserted.  Second batch: the id 1 occurs twice with different hashes; the second
  run reports two updated.
\<close>

theorem same_batch_twice_counterexample:
  "upsert_creators_bulk example_pg 5
     (Some (JArr [JObj [(''id'', JNum ''2''), (''name'', JStr ''Bob''), (''slug'', JStr ''ada''),
                        (''data_hash'', JStr ''h2'')],
                  JObj [(''id'', JNum ''1''), (''name'', JStr ''Ada''), (''slug'', JStr ''ada-l''),
                        (''data_hash'', JStr ''h1'')]]))
     [(example_creator 1)\<lparr>creators.slug := Some ''ada'', creators.data_hash := Some ''h0''\<rparr>] =
   Inr (\<lparr>inserted_count = 0, updated_count = 1, total_count = 2,
         errors = JArr [JObj [(''creator_id'', JStr ''2''),
           (''error'', JStr ''duplicate key value violates unique constraint idx_creators_slug'')]]\<rparr>,
        [(example_creator 1)\<lparr>creators.slug := Some ''ada-l'', creators.data_hash := Some ''h1'',
                              creators.updated_at := Some 5\<rparr>]) \<and>
   upsert_creators_bulk example_pg 6
     (Some (JArr [JObj [(''id'', JNum ''2''), (''name'', JStr ''Bob''), (''slug'', JStr ''ada''),
                        (''data_hash'', JStr ''h2'')],
                  JObj [(''id'', JNum ''1''), (''name'', JStr ''Ada''), (''slug'', JStr ''ada-l''),
                        (''data_hash'', JStr ''h1'')]]))
     [(example_creator 1)\<lparr>creators.slug := Some ''ada-l'', creators.data_hash := Some ''h1'',
                              creators.updated_at := Some 5\<rparr>] =
   Inr (\<lparr>inserted_count = 1, updated_count = 0, total_count = 2, errors = JArr []\<rparr>,
        [(example_creator 1)\<lparr>creators.slug := Some ''ada-l'', creators.data_hash := Some ''h1'',
                              creators.updated_at := Some 5\<rparr>,
         (example_creator 2)\<lparr>creators.name := ''Bob'', creators.slug := Some ''ada'',
                              creators.data_hash := Some ''h2'', creators.created_at := Some 6,
                              creators.updated_at := Some 6\<rparr>]) \<and>
   upsert_creators_bulk example_pg 5
     (Some (JArr [JObj [(''id'', JNum ''1''), (''name'', JStr ''Ada''), (''data_hash'', JStr ''h1'')],
                  JObj [(''id'', JNum ''1''), (''name'', JStr ''Ada L''), (''data_hash'', JStr ''h2'')]])) [] =
   Inr (\<lparr>inserted_count = 1, updated_count = 1, total_count = 2, errors = JArr []\<rparr>,
        [(example_creator 1)\<lparr>creators.name := ''Ada L'', creators.data_hash := Some ''h2'',
                              creators.created_at := Some 5, creators.updated_at := Some 5\<rparr>]) \<and>
   upsert_creators_bulk example_pg 5
     (Some (JArr [JObj [(''id'', JNum ''1''), (''name'', JStr ''Ada''), (''data_hash'', JStr ''h1'')],
                  JObj [(''id'', JNum ''1''), (''name'', JStr ''Ada L''), (''data_hash'', JStr ''h2'')]]))
     [(example_creator 1)\<lparr>creators.name := ''Ada L'', creators.data_hash := Some ''h2'',
                              creators.created_at := Some 5, creators.updated_at := Some 5\<rparr>] =
   Inr (\<lparr>inserted_count = 0, updated_count = 2, total_count = 2, errors = JArr []\<rparr>,
        [(example_creator 1)\<lparr>creators.name := ''Ada L'', creators.data_hash := Some ''h2'',
                              creators.created_at := Some 5, creators.updated_at := Some 5\<rparr>])"
  by (simp add: creators_defs engine_defs)

section \<open>One failing entity does not stop the batch\<close>

text \<open>
  Claim C5.  In each of the three functions, when the block of an entity \<open>e\<close> raises
  (a malformed payload, a failed cast, a violated constraint) at the table the entities
  \<open>xs\<close> before it have produced, the call still returns: the table and the inserted and
  updated counts are those of the batch without \<open>e\<close>, so every other entity's write
  takes effect; \<open>e\<close> is counted in the total and its error object stands in the
  returned list, between the errors of the entities before and after it.
\<close>

theorem bulk_functions_isolate_failures:
  "(upsert_creator pg now (final_table (upsert_creator pg now) xs tc) e = Inl err \<longrightarrow>
      (\<exists>res res0 t'.
         upsert_creators_bulk pg now (Some (JArr (xs @ e # ys))) tc = Inr (res, t') \<and>
         upsert_creators_bulk pg now (Some (JArr (xs @ ys))) tc = Inr (res0, t') \<and>
         inserted_count res = inserted_count res0 \<and>
         updated_count res = updated_count res0 \<and>
         total_count res = total_count res0 + 1 \<and>
         (\<exists>es1 es2. errors res0 = JArr (es1 @ es2) \<and>
            errors res = JArr (es1 @ jsonb_build_error pg ''creator_id'' ''id'' e err # es2)))) \<and>
   (upsert_project pg now cs (final_table (upsert_project pg now cs) xs tp) e = Inl err \<longrightarrow>
      (\<exists>res res0 t'.
         upsert_projects_bulk pg now cs (Some (JArr (xs @ e # ys))) tp = Inr (res, t') \<and>
         upsert_projects_bulk pg now cs (Some (JArr (xs @ ys))) tp = Inr (res0, t') \<and>
         inserted_count res = inserted_count res0 \<and>
         updated_count res = updated_count res0 \<and>
         total_count res = total_count res0 + 1 \<and>
         (\<exists>es1 es2. errors res0 = JArr (es1 @ es2) \<and>
            errors res = JArr (es1 @ jsonb_build_error pg ''project_id'' ''id'' e err # es2)))) \<and>
   (sync_creator_outreach pg now cs (final_table (sync_creator_outreach pg now cs) xs tco) e = Inl err \<longrightarrow>
      (\<exists>res res0 t'.
         sync_creator_outreach_bulk pg now cs (Some (JArr (xs @ e # ys))) tco = Inr (res, t') \<and>
         sync_creator_outreach_bulk pg now cs (Some (JArr (xs @ ys))) tco = Inr (res0, t') \<and>
         inserted_count res = inserted_count res0 \<and>
         updated_count res = updated_count res0 \<and>
         total_count res = total_count res0 + 1 \<and>
         (\<exists>es1 es2. errors res0 = JArr (es1 @ es2) \<and>
            errors res = JArr (es1 @ jsonb_build_error pg ''creator_id'' ''creator_id'' e err # es2))))"
proof (intro conjI impI)
  assume "upsert_creator pg now (final_table (upsert_creator pg now) xs tc) e = Inl err"
  from bulk_function_isolates[where body = "upsert_creator pg now" and ys = ys
      and on_error = "jsonb_build_error pg ''creator_id'' ''id''", OF this]
  show "\<exists>res res0 t'.
         upsert_creators_bulk pg now (Some (JArr (xs @ e # ys))) tc = Inr (res, t') \<and>
         upsert_creators_bulk pg now (Some (JArr (xs @ ys))) tc = Inr (res0, t') \<and>
         inserted_count res = inserted_count res0 \<and>
         updated_count res = updated_count res0 \<and>
         total_count res = total_count res0 + 1 \<and>
         (\<exists>es1 es2. errors res0 = JArr (es1 @ es2) \<and>
            errors res = JArr (es1 @ jsonb_build_error pg ''creator_id'' ''id'' e err # es2))"
    unfolding upsert_creators_bulk_def by blast
next
  assume "upsert_project pg now cs (final_table (upsert_project pg now cs) xs tp) e = Inl err"
  from bulk_function_isolates[where body = "upsert_project pg now cs" and ys = ys
      and on_error = "jsonb_build_error pg ''project_id'' ''id''", OF this]
  show "\<exists>res res0 t'.
         upsert_projects_bulk pg now cs (Some (JArr (xs @ e # ys))) tp = Inr (res, t') \<and>
         upsert_projects_bulk pg now cs (Some (JArr (xs @ ys))) tp = Inr (res0, t') \<and>
         inserted_count res = inserted_count res0 \<and>
         updated_count res = updated_count res0 \<and>
         total_count res = total_count res0 + 1 \<and>
         (\<exists>es1 es2. errors res0 = JArr (es1 @ es2) \<and>
            errors res = JArr (es1 @ jsonb_build_error pg ''project_id'' ''id'' e err # es2))"
    unfolding upsert_projects_bulk_def by blast
next
  assume "sync_creator_outreach pg now cs (final_table (sync_creator_outreach pg now cs) xs tco) e = Inl err"
  from bulk_function_isolates[where body = "sync_creator_outreach pg now cs" and ys = ys
      and on_error = "jsonb_build_error pg ''creator_id'' ''creator_id''", OF this]
  show "\<exists>res res0 t'.
         sync_creator_outreach_bulk pg now cs (Some (JArr (xs @ e # ys))) tco = Inr (res, t') \<and>
         sync_creator_outreach_bulk pg now cs (Some (JArr (xs @ ys))) tco = Inr (res0, t') \<and>
         inserted_count res = inserted_count res0 \<and>
         updated_count res = updated_count res0 \<and>
         total_count res = total_count res0 + 1 \<and>
         (\<exists>es1 es2. errors res0 = JArr (es1 @ es2) \<and>
            errors res = JArr (es1 @ jsonb_build_error pg ''creator_id'' ''creator_id'' e err # es2))"
    unfolding sync_creator_outreach_bulk_def by blast
qed

text \<open>Three failing entities: a creator whose id is not a number, a project whose
  creator does not exist, an outreach payload without \<open>creator_id\<close>.  The creator after
  the failing one is inserted.\<close>

theorem bulk_functions_isolate_failures_witness:
  "upsert_creator example_pg 5 (final_table (upsert_creator example_pg 5) [] [])
       (JObj [(''id'', JStr ''x''), (''name'', JStr ''Bad'')]) = Inl invalid_text_representation \<and>
   upsert_creators_bulk example_pg 5
       (Some (JArr [JObj [(''id'', JStr ''x''), (''name'', JStr ''Bad'')],
                    JObj [(''id'', JNum ''3''), (''name'', JStr ''Cy''), (''data_hash'', JStr ''h3'')]])) [] =
     Inr (\<lparr>inserted_count = 1, updated_count = 0, total_count = 2,
           errors = JArr [JObj [(''creator_id'', JStr ''x''), (''error'', JStr ''invalid input syntax'')]]\<rparr>,
          [(example_creator 3)\<lparr>creators.name := ''Cy'', creators.data_hash := Some ''h3'',
                               creators.created_at := Some 5, creators.updated_at := Some 5\<rparr>]) \<and>
   (\<exists>res0. upsert_creators_bulk example_pg 5
       (Some (JArr [JObj [(''id'', JNum ''3''), (''name'', JStr ''Cy''), (''data_hash'', JStr ''h3'')]])) [] =
     Inr (res0, [(example_creator 3)\<lparr>creators.name := ''Cy'', creators.data_hash := Some ''h3'',
                               creators.created_at := Some 5, creators.updated_at := Some 5\<rparr>]) \<and>
     inserted_count res0 = 1 \<and> updated_count res0 = 0 \<and> total_count res0 = 1 \<and>
     errors res0 = JArr []) \<and>
   upsert_project example_pg 5 [] (final_table (upsert_project example_pg 5 []) [] [])
       (JObj [(''id'', JNum ''7''), (''creator_id'', JNum ''1''), (''name'', JStr ''Lamp''),
              (''slug'', JStr ''lamp''), (''state'', JStr ''live''), (''country'', JStr ''US''),
              (''currency'', JStr ''USD''), (''goal'', JNum ''100''), (''created_at_ks'', JNum ''1'')]) =
     Inl (foreign_key_violation ''fk_creator'') \<and>
   (\<exists>res. upsert_projects_bulk example_pg 5 []
       (Some (JArr [JObj [(''id'', JNum ''7''), (''creator_id'', JNum ''1''), (''name'', JStr ''Lamp''),
              (''slug'', JStr ''lamp''), (''state'', JStr ''live''), (''country'', JStr ''US''),
              (''currency'', JStr ''USD''), (''goal'', JNum ''100''), (''created_at_ks'', JNum ''1'')]])) [] =
     Inr (res, []) \<and> inserted_count res = 0 \<and> updated_count res = 0 \<and> total_count res = 1 \<and>
     errors res = JArr [JObj [(''project_id'', JStr ''7''),
                              (''error'', JStr ''violates foreign key constraint fk_creator'')]]) \<and>
   sync_creator_outreach example_pg 5 [] (final_table (sync_creator_outreach example_pg 5 []) [] [])
       (JObj [(''email'', JStr ''a@b.com'')]) = Inl (not_null_violation ''creator_id'') \<and>
   (\<exists>res. sync_creator_outreach_bulk example_pg 5 []
       (Some (JArr [JObj [(''email'', JStr ''a@b.com'')]])) [] =
     Inr (res, []) \<and> inserted_count res = 0 \<and> updated_count res = 0 \<and> total_count res = 1 \<and>
     errors res = JArr [JObj [(''creator_id'', JNull),
                              (''error'', JStr ''null value in column creator_id'')]])"
proof -
  let ?bad = "JObj [(''id'', JStr ''x''), (''name'', JStr ''Bad'')]"
  let ?good = "JObj [(''id'', JNum ''3''), (''name'', JStr ''Cy''), (''data_hash'', JStr ''h3'')]"
  let ?row = "(example_creator 3)\<lparr>creators.name := ''Cy'', creators.data_hash := Some ''h3'',
                               creators.created_at := Some 5, creators.updated_at := Some 5\<rparr>"
  let ?project = "JObj [(''id'', JNum ''7''), (''creator_id'', JNum ''1''), (''name'', JStr ''Lamp''),
              (''slug'', JStr ''lamp''), (''state'', JStr ''live''), (''country'', JStr ''US''),
              (''currency'', JStr ''USD''), (''goal'', JNum ''100''), (''created_at_ks'', JNum ''1'')]"
  let ?outreach = "JObj [(''email'', JStr ''a@b.com'')]"
  have h1: "upsert_creator example_pg 5 (final_table (upsert_creator example_pg 5) [] []) ?bad =
      Inl invalid_text_representation"
    by (simp add: creators_defs engine_defs)
  have r1: "upsert_creators_bulk example_pg 5 (Some (JArr [?bad, ?good])) [] =
     Inr (\<lparr>inserted_count = 1, updated_count = 0, total_count = 2,
           errors = JArr [JObj [(''creator_id'', JStr ''x''), (''error'', JStr ''invalid input syntax'')]]\<rparr>,
          [?row])"
    by (simp add: creators_defs engine_defs)
  have h2: "upsert_project example_pg 5 [] (final_table (upsert_project example_pg 5 []) [] []) ?project =
      Inl (foreign_key_violation ''fk_creator'')"
    by (simp add: projects_defs engine_defs)
  have h3: "sync_creator_outreach example_pg 5 [] (final_table (sync_creator_outreach example_pg 5 []) [] [])
      ?outreach = Inl (not_null_violation ''creator_id'')"
    by (simp add: outreach_defs engine_defs)
  have e1: "jsonb_build_error example_pg ''creator_id'' ''id'' ?bad invalid_text_representation =
      JObj [(''creator_id'', JStr ''x''), (''error'', JStr ''invalid input syntax'')]"
    and e2: "jsonb_build_error example_pg ''project_id'' ''id'' ?project (foreign_key_violation ''fk_creator'') =
      JObj [(''project_id'', JStr ''7''), (''error'', JStr ''violates foreign key constraint fk_creator'')]"
    and e3: "jsonb_build_error example_pg ''creator_id'' ''creator_id'' ?outreach (not_null_violation ''creator_id'') =
      JObj [(''creator_id'', JNull), (''error'', JStr ''null value in column creator_id'')]"
    by (simp_all add: jsonb_build_error_def engine_defs)
  note creators_part = bulk_functions_isolate_failures[where pg = example_pg and now = 5
      and xs = "[]" and tc = "[]" and e = ?bad and err = invalid_text_representation
      and ys = "[?good]", THEN conjunct1, rule_format, OF h1]
  then obtain res res0 t' es1 es2 where
    run: "upsert_creators_bulk example_pg 5 (Some (JArr ([] @ ?bad # [?good]))) [] = Inr (res, t')"
    and run0: "upsert_creators_bulk example_pg 5 (Some (JArr ([] @ [?good]))) [] = Inr (res0, t')"
    and counts: "inserted_count res = inserted_count res0" "updated_count res = updated_count res0"
      "total_count res = total_count res0 + 1"
    and errs: "errors res0 = JArr (es1 @ es2)"
      "errors res = JArr (es1 @ jsonb_build_error example_pg ''creator_id'' ''id'' ?bad
                                 invalid_text_representation # es2)"
    by blast
  from run r1 have res: "res = \<lparr>inserted_count = 1, updated_count = 0, total_count = 2,
           errors = JArr [JObj [(''creator_id'', JStr ''x''), (''error'', JStr ''invalid input syntax'')]]\<rparr>"
    and t': "t' = [?row]"
    by simp_all
  from errs(2) res have "es1 = []" "es2 = []"
    by (simp_all add: e1 Cons_eq_append_conv)
  with run0 counts errs(1) res t'
  have c1: "\<exists>res0. upsert_creators_bulk example_pg 5 (Some (JArr [?good])) [] = Inr (res0, [?row]) \<and>
     inserted_count res0 = 1 \<and> updated_count res0 = 0 \<and> total_count res0 = 1 \<and>
     errors res0 = JArr []"
    by simp
  note projects_part = bulk_functions_isolate_failures[where pg = example_pg and now = 5
      and xs = "[]" and cs = "[]" and tp = "[]" and e = ?project
      and err = "foreign_key_violation ''fk_creator''" and ys = "[]",
      THEN conjunct2, THEN conjunct1, rule_format, OF h2]
  then obtain pres pres0 pt es3 es4 where
    prun: "upsert_projects_bulk example_pg 5 [] (Some (JArr ([] @ ?project # []))) [] = Inr (pres, pt)"
    and prun0: "upsert_projects_bulk example_pg 5 [] (Some (JArr ([] @ []))) [] = Inr (pres0, pt)"
    and pcounts: "inserted_count pres = inserted_count pres0" "updated_count pres = updated_count pres0"
      "total_count pres = total_count pres0 + 1"
    and perrs: "errors pres0 = JArr (es3 @ es4)"
      "errors pres = JArr (es3 @ jsonb_build_error example_pg ''project_id'' ''id'' ?project
                                 (foreign_key_violation ''fk_creator'') # es4)"
    by blast
  from prun0 have p0: "pres0 = \<lparr>inserted_count = 0, updated_count = 0, total_count = 0, errors = JArr []\<rparr>"
    and pt: "pt = []"
    by (simp_all add: upsert_projects_bulk_def bulk_function_def)
  from perrs p0 have "es3 = []" "es4 = []"
    by simp_all
  with prun pcounts perrs(2) p0 pt
  have c2: "\<exists>res. upsert_projects_bulk example_pg 5 [] (Some (JArr [?project])) [] = Inr (res, []) \<and>
     inserted_count res = 0 \<and> updated_count res = 0 \<and> total_count res = 1 \<and>
     errors res = JArr [JObj [(''project_id'', JStr ''7''),
                              (''error'', JStr ''violates foreign key constraint fk_creator'')]]"
    by (simp add: e2)
  note outreach_part = bulk_functions_isolate_failures[where pg = example_pg and now = 5
      and xs = "[]" and cs = "[]" and tco = "[]" and e = ?outreach
      and err = "not_null_violation ''creator_id''" and ys = "[]",
      THEN conjunct2, THEN conjunct2, rule_format, OF h3]
  then obtain ores ores0 ot es5 es6 where
    orun: "sync_creator_outreach_bulk example_pg 5 [] (Some (JArr ([] @ ?outreach # []))) [] = Inr (ores, ot)"
    and orun0: "sync_creator_outreach_bulk example_pg 5 [] (Some (JArr ([] @ []))) [] = Inr (ores0, ot)"
    and ocounts: "inserted_count ores = inserted_count ores0" "updated_count ores = updated_count ores0"
      "total_count ores = total_count ores0 + 1"
    and oerrs: "errors ores0 = JArr (es5 @ es6)"
      "errors ores = JArr (es5 @ jsonb_build_error example_pg ''creator_id'' ''creator_id'' ?outreach
                                 (not_null_violation ''creator_id'') # es6)"
    by blast
  from orun0 have o0: "ores0 = \<lparr>inserted_count = 0, updated_count = 0, total_count = 0, errors = JArr []\<rparr>"
    and ot: "ot = []"
    by (simp_all add: sync_creator_outreach_bulk_def bulk_function_def)
  from oerrs o0 have "es5 = []" "es6 = []"
    by simp_all
  with orun ocounts oerrs(2) o0 ot
  have c3: "\<exists>res. sync_creator_outreach_bulk example_pg 5 [] (Some (JArr [?outreach])) [] = Inr (res, []) \<and>
     inserted_count res = 0 \<and> updated_count res = 0 \<and> total_count res = 1 \<and>
     errors res = JArr [JObj [(''creator_id'', JNull),
                              (''error'', JStr ''null value in column creator_id'')]]"
    by (simp add: e3)
  from h1 r1 c1 h2 c2 h3 c3 show ?thesis
    by blast
qed

section \<open>What a call reports\<close>

lemma sync_creator_outreach_writes:
  "sync_creator_outreach pg now cs t rec = Inr (oc, t') \<Longrightarrow> oc \<noteq> Unchanged"
  unfolding sync_creator_outreach_def Let_def
  by (elim sql_bindE) (auto split: if_splits)

lemma sync_never_unchanged:
  "count_outcome (Inr Unchanged) (outcomes (sync_creator_outreach pg now cs) recs t) = 0"
proof (induction recs arbitrary: t)
  case Nil
  show ?case by simp
next
  case (Cons rec recs)
  show ?case
  proof (cases "sync_creator_outreach pg now cs t rec")
    case (Inl err)
    with Cons show ?thesis by simp
  next
    case (Inr p)
    obtain oc t' where p: "p = (oc, t')" by (cases p)
    with Inr have "oc \<noteq> Unchanged" by (auto dest: sync_creator_outreach_writes)
    with Inr p Cons show ?thesis by simp
  qed
qed

text \<open>
  Claim C6, as amended.  For a batch that is a JSON array, each function returns one row
  with four columns: \<open>inserted_count\<close> and \<open>updated_count\<close>, the numbers of entities
  inserted and updated; \<open>total_count\<close>, the number of entities in the batch; and
  \<open>errors\<close>, the array with one object per entity whose block raised, holding the
  entity's id text (a JSON null when the payload has none) and the message.  The
  number of failed entities is the length of \<open>errors\<close> and the number of unchanged ones
  is \<open>total_count - inserted_count - updated_count\<close> minus that length; neither is a
  column.  \<open>sync_creator_outreach_bulk\<close> never leaves an entity unchanged.
\<close>

theorem bulk_functions_report:
  "upsert_creators_bulk pg now (Some (JArr recs)) tc =
     Inr (\<lparr>inserted_count = count_outcome (Inr Inserted) (outcomes (upsert_creator pg now) recs tc),
           updated_count = count_outcome (Inr Updated) (outcomes (upsert_creator pg now) recs tc),
           total_count = int (length recs),
           errors = JArr (error_entries (upsert_creator pg now)
                            (jsonb_build_error pg ''creator_id'' ''id'') recs tc)\<rparr>,
          final_table (upsert_creator pg now) recs tc) \<and>
   int (length (error_entries (upsert_creator pg now)
                  (jsonb_build_error pg ''creator_id'' ''id'') recs tc)) =
     count_failed (outcomes (upsert_creator pg now) recs tc) \<and>
   int (length recs) =
     count_outcome (Inr Inserted) (outcomes (upsert_creator pg now) recs tc) +
     count_outcome (Inr Updated) (outcomes (upsert_creator pg now) recs tc) +
     count_outcome (Inr Unchanged) (outcomes (upsert_creator pg now) recs tc) +
     count_failed (outcomes (upsert_creator pg now) recs tc) \<and>
   upsert_projects_bulk pg now cs (Some (JArr recs)) tp =
     Inr (\<lparr>inserted_count = count_outcome (Inr Inserted) (outcomes (upsert_project pg now cs) recs tp),
           updated_count = count_outcome (Inr Updated) (outcomes (upsert_project pg now cs) recs tp),
           total_count = int (length recs),
           errors = JArr (error_entries (upsert_project pg now cs)
                            (jsonb_build_error pg ''project_id'' ''id'') recs tp)\<rparr>,
          final_table (upsert_project pg now cs) recs tp) \<and>
   int (length (error_entries (upsert_project pg now cs)
                  (jsonb_build_error pg ''project_id'' ''id'') recs tp)) =
     count_failed (outcomes (upsert_project pg now cs) recs tp) \<and>
   int (length recs) =
     count_outcome (Inr Inserted) (outcomes (upsert_project pg now cs) recs tp) +
     count_outcome (Inr Updated) (outcomes (upsert_project pg now cs) recs tp) +
     count_outcome (Inr Unchanged) (outcomes (upsert_project pg now cs) recs tp) +
     count_failed (outcomes (upsert_project pg now cs) recs tp) \<and>
   sync_creator_outreach_bulk pg now cs (Some (JArr recs)) tco =
     Inr (\<lparr>inserted_count =
             count_outcome (Inr Inserted) (outcomes (sync_creator_outreach pg now cs) recs tco),
           updated_count =
             count_outcome (Inr Updated) (outcomes (sync_creator_outreach pg now cs) recs tco),
           total_count = int (length recs),
           errors = JArr (error_entries (sync_creator_outreach pg now cs)
                            (jsonb_build_error pg ''creator_id'' ''creator_id'') recs tco)\<rparr>,
          final_table (sync_creator_outreach pg now cs) recs tco) \<and>
   int (length (error_entries (sync_creator_outreach pg now cs)
                  (jsonb_build_error pg ''creator_id'' ''creator_id'') recs tco)) =
     count_failed (outcomes (sync_creator_outreach pg now cs) recs tco) \<and>
   int (length recs) =
     count_outcome (Inr Inserted) (outcomes (sync_creator_outreach pg now cs) recs tco) +
     count_outcome (Inr Updated) (outcomes (sync_creator_outreach pg now cs) recs tco) +
     count_failed (outcomes (sync_creator_outreach pg now cs) recs tco) \<and>
   jsonb_build_error pg key idkey rec err =
     JObj [(key, case jsonb_get_text pg rec idkey of None \<Rightarrow> JNull | Some s \<Rightarrow> JStr s),
           (''error'', JStr (sqlerrm pg err))]"
proof -
  have "int (length recs) =
     count_outcome (Inr Inserted) (outcomes (sync_creator_outreach pg now cs) recs tco) +
     count_outcome (Inr Updated) (outcomes (sync_creator_outreach pg now cs) recs tco) +
     count_failed (outcomes (sync_creator_outreach pg now cs) recs tco)"
    using outcome_counts[of "outcomes (sync_creator_outreach pg now cs) recs tco"]
    by (simp add: sync_never_unchanged)
  moreover have "int (length recs) =
     count_outcome (Inr Inserted) (outcomes (upsert_creator pg now) recs tc) +
     count_outcome (Inr Updated) (outcomes (upsert_creator pg now) recs tc) +
     count_outcome (Inr Unchanged) (outcomes (upsert_creator pg now) recs tc) +
     count_failed (outcomes (upsert_creator pg now) recs tc)"
    using outcome_counts[of "outcomes (upsert_creator pg now) recs tc"] by simp
  moreover have "int (length recs) =
     count_outcome (Inr Inserted) (outcomes (upsert_project pg now cs) recs tp) +
     count_outcome (Inr Updated) (outcomes (upsert_project pg now cs) recs tp) +
     count_outcome (Inr Unchanged) (outcomes (upsert_project pg now cs) recs tp) +
     count_failed (outcomes (upsert_project pg now cs) recs tp)"
    using outcome_counts[of "outcomes (upsert_project pg now cs) recs tp"] by simp
  ultimately show ?thesis
    by (simp only: upsert_creators_bulk_def upsert_projects_bulk_def sync_creator_outreach_bulk_def
          bulk_function_char length_error_entries jsonb_build_error_def simp_thms)
qed

text \<open>
  The claim as stated names counts of unchanged and failed entities among the returned
  values.  Creator 1 is stored with hash \<open>h1\<close>; the batch holds its unchanged snapshot and
  two entities whose id is not a number.  One entity is unchanged and two fail; the
  returned counts are 0, 0 and 3.
\<close>

theorem bulk_report_counterexample:
  "upsert_creators_bulk example_pg 5
     (Some (JArr [JObj [(''id'', JNum ''1''), (''name'', JStr ''Ada''), (''data_hash'', JStr ''h1'')],
                  JObj [(''id'', JStr ''x'')],
                  JObj [(''id'', JStr ''y'')]]))
     [(example_creator 1)\<lparr>creators.data_hash := Some ''h1''\<rparr>] =
   Inr (\<lparr>inserted_count = 0, updated_count = 0, total_count = 3,
         errors = JArr [JObj [(''creator_id'', JStr ''x''), (''error'', JStr ''invalid input syntax'')],
                        JObj [(''creator_id'', JStr ''y''), (''error'', JStr ''invalid input syntax'')]]\<rparr>,
        [(example_creator 1)\<lparr>creators.data_hash := Some ''h1''\<rparr>]) \<and>
   outcomes (upsert_creator example_pg 5)
     [JObj [(''id'', JNum ''1''), (''name'', JStr ''Ada''), (''data_hash'', JStr ''h1'')],
      JObj [(''id'', JStr ''x'')],
      JObj [(''id'', JStr ''y'')]]
     [(example_creator 1)\<lparr>creators.data_hash := Some ''h1''\<rparr>] =
   [Inr Unchanged, Inl invalid_text_representation, Inl invalid_text_representation] \<and>
   count_outcome (Inr Unchanged)
     [Inr Unchanged, Inl invalid_text_representation, Inl invalid_text_representation] = 1 \<and>
   count_failed
     [Inr Unchanged, Inl invalid_text_representation, Inl invalid_text_representation] = 2 \<and>
   (1 :: int) \<notin> {0, 0, 3} \<and> (2 :: int) \<notin> {0, 0, 3}"
  by (simp add: creators_defs engine_defs)

section \<open>The blocklist upsert\<close>

lemma COALESCE_idem [simp]: "COALESCE a (COALESCE a b) = COALESCE a b"
  by (simp add: COALESCE_def split: option.splits)

lemma COALESCE_same [simp]: "COALESCE a a = a"
  by (simp add: COALESCE_def split: option.splits)





lemma domain_blocked_do_update [simp]: "firecrawl_blocked_domains.domain (blocked_do_update now old E) = firecrawl_blocked_domains.domain old"
  by (simp add: blocked_do_update_def)








section \<open>The pipeline state is a single row\<close>

lemma pipeline_state_check_Inr:
  "pipeline_state_check t = Inr t' \<longleftrightarrow> t' = t \<and> pipeline_state_valid t"
  by (auto simp: pipeline_state_check_def pipeline_state_valid_def)

lemma pipeline_state_valid_filter:
  "pipeline_state_valid t \<Longrightarrow> pipeline_state_valid (filter P t)"
  by (auto simp: pipeline_state_valid_def list_all_iff distinct_map_filter)

lemma pipeline_state_execute_valid:
  assumes "pipeline_state_valid t" and "pipeline_state_execute now s t = Inr t'"
  shows "pipeline_state_valid t'"
  using assms
  by (cases s) (auto simp: pipeline_state_check_Inr pipeline_state_valid_filter split: if_splits)

lemma pipeline_state_run_valid:
  "pipeline_state_valid t \<Longrightarrow> pipeline_state_valid (pipeline_state_run now ss t)"
proof (induction ss arbitrary: t)
  case Nil
  then show ?case by simp
next
  case (Cons s ss)
  have "pipeline_state_valid (case pipeline_state_execute now s t of Inl e \<Rightarrow> t | Inr t' \<Rightarrow> t')"
    using Cons.prems pipeline_state_execute_valid[of t now s]
    by (cases "pipeline_state_execute now s t") auto
  then show ?case
    using Cons.IH by simp
qed

lemma pipeline_state_valid_cases:
  assumes "pipeline_state_valid t"
  shows "t = [] \<or> (\<exists>r. t = [r] \<and> pipeline_state.id_col r = 1)"
proof (cases t)
  case Nil
  then show ?thesis by simp
next
  case (Cons r rest)
  with assms have r: "pipeline_state.id_col r = 1"
    and rest: "list_all (\<lambda>x. pipeline_state.id_col x = 1) rest"
    and notin: "pipeline_state.id_col r \<notin> pipeline_state.id_col ` set rest"
    by (auto simp: pipeline_state_valid_def)
  have "rest = []"
  proof (cases rest)
    case Nil
    then show ?thesis .
  next
    case (Cons x xs)
    with rest have "pipeline_state.id_col x = 1" by simp
    with r notin Cons show ?thesis by auto
  qed
  with Cons r show ?thesis by simp
qed

lemma pipeline_state_setup_valid:
  assumes "pipeline_state_valid t"
  shows "pipeline_state_setup now (Some t) =
           Inr (if t = [] then [pipeline_state_default_row now] else t)"
  using pipeline_state_valid_cases[OF assms]
  by (auto simp: pipeline_state_setup_def pipeline_state_check_def pipeline_state_default_row_def)

text \<open>
  Claim C8.  Whatever statements have run on \<open>pipeline_state\<close> since it was created,
  every row has \<open>id = 1\<close> and there is at most one row.  The setup script creates the
  default row when the table is new or empty and leaves an existing row as it is;
  after it the table has exactly one row, and running it again changes nothing.
\<close>

theorem pipeline_state_singleton:
  "list_all (\<lambda>r. pipeline_state.id_col r = 1) (pipeline_state_run now stmts []) \<and>
   length (pipeline_state_run now stmts []) \<le> 1 \<and>
   pipeline_state_setup now1 None = Inr [pipeline_state_default_row now1] \<and>
   pipeline_state_setup now1 (Some (pipeline_state_run now stmts [])) =
     Inr (if pipeline_state_run now stmts [] = []
          then [pipeline_state_default_row now1]
          else pipeline_state_run now stmts []) \<and>
   length (if pipeline_state_run now stmts [] = []
           then [pipeline_state_default_row now1]
           else pipeline_state_run now stmts []) = 1 \<and>
   pipeline_state_setup now2
       (Some (if pipeline_state_run now stmts [] = []
              then [pipeline_state_default_row now1]
              else pipeline_state_run now stmts [])) =
     Inr (if pipeline_state_run now stmts [] = []
          then [pipeline_state_default_row now1]
          else pipeline_state_run now stmts [])"
proof -
  let ?t = "pipeline_state_run now stmts []"
  let ?t1 = "if ?t = [] then [pipeline_state_default_row now1] else ?t"
  have valid: "pipeline_state_valid ?t"
    by (rule pipeline_state_run_valid) (simp add: pipeline_state_valid_def)
  have shape: "?t = [] \<or> (\<exists>r. ?t = [r] \<and> pipeline_state.id_col r = 1)"
    by (rule pipeline_state_valid_cases[OF valid])
  have ids: "list_all (\<lambda>r. pipeline_state.id_col r = 1) ?t"
    using valid by (simp add: pipeline_state_valid_def)
  have len: "length ?t \<le> 1"
    using shape by auto
  have fresh: "pipeline_state_setup now1 None = Inr [pipeline_state_default_row now1]"
    by (simp add: pipeline_state_setup_def pipeline_state_check_def pipeline_state_default_row_def)
  have first_run: "pipeline_state_setup now1 (Some ?t) = Inr ?t1"
    by (rule pipeline_state_setup_valid[OF valid])
  have valid1: "pipeline_state_valid ?t1"
    using valid by (simp add: pipeline_state_valid_def pipeline_state_default_row_def)
  have len1: "length ?t1 = 1"
    using shape by auto
  have again: "pipeline_state_setup now2 (Some ?t1) = Inr ?t1"
    using pipeline_state_setup_valid[OF valid1, of now2] by (simp split: if_splits)
  from ids len fresh first_run len1 again show ?thesis
    by blast
qed

section \<open>The rows of the client-facing view\<close>




lemma COALESCE_Some_not_None [simp]: "COALESCE a (Some b) \<noteq> None"
  by (simp add: COALESCE_def split: option.splits)










end
